theory Spec2Isabelle
  imports Main
begin

section \<open>Values, exceptions and the outside world\<close>

text \<open>
  The program is one Python module, \<^verbatim>\<open>app.py\<close>: a URL parser, a transcript fetcher
  with a chain of fall-backs, a translator, a summarizer with a retry loop and the
  request handler that composes them. Python strings are modelled as \<^typ>\<open>string\<close>
  (the bytes of their UTF-8 form), dynamically typed values that come out of a
  decoded JSON document as \<open>json\<close>, an exception as its class together with its
  \<^verbatim>\<open>str()\<close> text.
\<close>

datatype json =
    JNull
  | JBool bool
  | JNum int
  | JStr string
  | JArr "json list"
  | JObj "(string \<times> json) list"

text \<open>
  \<open>JObj\<close> lists the items of a \<^verbatim>\<open>dict\<close>. A JSON number is kept as an integer: the
  program only ever tests a number for being zero, indexes it or asks it for an
  attribute. A number with a fraction answers those like a non-zero integer, except
  that the text of the exception names the type \<^verbatim>\<open>float\<close>.
\<close>

datatype exn_class =
    NoTranscriptFound
  | TranscriptsDisabled
  | CouldNotRetrieveTranscript
  | ValueError
  | TypeError
  | PyException

text \<open>
  The first three are the classes of the transcript library that the handlers of the
  program name; an error of that library which is neither \<open>NoTranscriptFound\<close> nor
  \<open>TranscriptsDisabled\<close> has class \<open>CouldNotRetrieveTranscript\<close>. \<open>PyException\<close> is
  \<^verbatim>\<open>Exception\<close> itself and every subclass that no handler distinguishes.

  The program builds exceptions of three classes, each from one string. An
  \<^verbatim>\<open>Exception\<close> has that string as its text. A \<^verbatim>\<open>CouldNotRetrieveTranscript\<close> takes
  its argument for a video id and has the message that the library builds around it.
  The constructor of \<^verbatim>\<open>NoTranscriptFound\<close> has three required parameters (the video
  id, the requested language codes, the transcript data), so that the call with one
  argument raises \<^verbatim>\<open>TypeError\<close> and no \<^verbatim>\<open>NoTranscriptFound\<close> comes to exist.
\<close>

datatype exn = Exn (cls: exn_class) (msg: string)

record track =
  language_code :: string
  language :: string

datatype xml = Element (tag: string) (el_text: "string option") (children: "xml list")

record response =
  status_code :: nat
  body :: string
  parsed_json :: "string + json"
  status_error :: string

text \<open>
  \<open>body\<close> is \<^verbatim>\<open>response.text\<close>; \<open>parsed_json\<close> is what \<^verbatim>\<open>response.json()\<close> does: the
  decoded document, or the text of the exception it raises; \<open>status_error\<close> is the text
  of the \<^verbatim>\<open>HTTPError\<close> that \<^verbatim>\<open>raise_for_status()\<close> raises for this response.
\<close>

datatype event =
    GetTranscript string "string list"
  | ListTranscripts string
  | Fetch track
  | HttpGet string
  | HttpPost string json
  | Sleep nat
  | Print string

text \<open>
  Every call that leaves the process is an \<open>event\<close>; a run of the program appends its
  events to the history it was started with. The outside world answers a call from the
  history so far and the arguments, so that the same call may be answered differently
  the second time. A call of the transcript library returns the texts of the segments
  or raises; a call of the HTTP client returns a response or raises an exception of the
  connection, given by its text (the client raises \<^verbatim>\<open>HTTPError\<close> only from
  \<^verbatim>\<open>raise_for_status()\<close>). \<open>ET_fromstring\<close> is the XML parser, and \<open>netloc_rejected\<close>
  is the validation that the URL library applies to a network location beyond the
  matching of its square brackets (the text of the \<^verbatim>\<open>ValueError\<close>, if it rejects).
  \<open>retrieve_message\<close> is the message the transcript library gives a
  \<^verbatim>\<open>CouldNotRetrieveTranscript\<close> built from the given argument, and \<open>arity_error\<close> the
  text the interpreter gives the \<^verbatim>\<open>TypeError\<close> of a \<^verbatim>\<open>NoTranscriptFound\<close> built from
  one argument.
\<close>

record world =
  api_get_transcript :: "event list \<Rightarrow> string \<Rightarrow> string list \<Rightarrow> exn + string list"
  api_list_transcripts :: "event list \<Rightarrow> string \<Rightarrow> exn + track list"
  api_fetch :: "event list \<Rightarrow> track \<Rightarrow> exn + string list"
  requests_get :: "event list \<Rightarrow> string \<Rightarrow> string + response"
  requests_post :: "event list \<Rightarrow> string \<Rightarrow> json \<Rightarrow> string + response"
  ET_fromstring :: "string \<Rightarrow> string + xml"
  netloc_rejected :: "string \<Rightarrow> string option"
  retrieve_message :: "string \<Rightarrow> string"
  arity_error :: string

section \<open>Built-in operations of Python\<close>

definition squote :: string where
  "squote = [CHR 0x27]"

text \<open>\<^verbatim>\<open>' '.join(xs)\<close>\<close>

fun join_sp :: "string list \<Rightarrow> string" where
  "join_sp [] = []"
| "join_sp [x] = x"
| "join_sp (x # y # ys) = x @ '' '' @ join_sp (y # ys)"

text \<open>\<^verbatim>\<open>s.split(c)\<close> for a one-character separator.\<close>

fun split_on :: "char \<Rightarrow> string \<Rightarrow> string list" where
  "split_on c [] = [[]]"
| "split_on c (x # xs) =
     (if x = c then [] # split_on c xs
      else (case split_on c xs of
              [] \<Rightarrow> [[x]]
            | w # ws \<Rightarrow> (x # w) # ws))"

text \<open>
  \<^verbatim>\<open>s.strip()\<close> leaves nothing exactly when \<open>s\<close> is made of white space only: the
  characters U+0009 to U+000D, U+001C to U+0020, U+0085, U+00A0, U+1680, U+2000 to
  U+200A, U+2028, U+2029, U+202F, U+205F and U+3000, read here in their UTF-8 form.
\<close>

definition ascii_space :: "char \<Rightarrow> bool" where
  "ascii_space c = (let n = (of_char c :: nat) in (9 \<le> n \<and> n \<le> 13) \<or> (28 \<le> n \<and> n \<le> 32))"

fun blank :: "string \<Rightarrow> bool" where
  "blank [] = True"
| "blank (c # cs) =
     (if ascii_space c then blank cs
      else (let n = (of_char c :: nat) in
        (case cs of
           [] \<Rightarrow> False
         | d # ds \<Rightarrow>
             (let m = (of_char d :: nat) in
              if n = 0xC2 \<and> (m = 0x85 \<or> m = 0xA0) then blank ds
              else (case ds of
                      [] \<Rightarrow> False
                    | e # es \<Rightarrow>
                        (let k = (of_char e :: nat) in
                         if (n = 0xE1 \<and> m = 0x9A \<and> k = 0x80)
                            \<or> (n = 0xE2 \<and> m = 0x80 \<and> ((0x80 \<le> k \<and> k \<le> 0x8A) \<or> k = 0xA8 \<or> k = 0xA9 \<or> k = 0xAF))
                            \<or> (n = 0xE2 \<and> m = 0x81 \<and> k = 0x9F)
                            \<or> (n = 0xE3 \<and> m = 0x80 \<and> k = 0x80)
                         then blank es else False))))))"

text \<open>Truth value of a Python object, as \<^verbatim>\<open>if not x\<close> takes it.\<close>

fun truthy :: "json \<Rightarrow> bool" where
  "truthy JNull = False"
| "truthy (JBool b) = b"
| "truthy (JNum n) = (n \<noteq> 0)"
| "truthy (JStr s) = (s \<noteq> [])"
| "truthy (JArr xs) = (xs \<noteq> [])"
| "truthy (JObj kvs) = (kvs \<noteq> [])"

fun type_name :: "json \<Rightarrow> string" where
  "type_name JNull = ''NoneType''"
| "type_name (JBool b) = ''bool''"
| "type_name (JNum n) = ''int''"
| "type_name (JStr s) = ''str''"
| "type_name (JArr xs) = ''list''"
| "type_name (JObj kvs) = ''dict''"

text \<open>
  \<^verbatim>\<open>x.get(k, d)\<close>: the value under \<open>k\<close> of a \<^verbatim>\<open>dict\<close>, \<open>d\<close> when the key is absent; any
  other object has no such method and the call raises \<^verbatim>\<open>AttributeError\<close>. Of a raised
  exception the callers below only use the text, which is what \<open>Inl\<close> carries.
\<close>

fun py_get :: "json \<Rightarrow> string \<Rightarrow> json \<Rightarrow> string + json" where
  "py_get (JObj kvs) k d = Inr (case map_of kvs k of None \<Rightarrow> d | Some v \<Rightarrow> v)"
| "py_get x k d =
     Inl (squote @ type_name x @ squote @ '' object has no attribute '' @ squote @ ''get'' @ squote)"

text \<open>
  \<^verbatim>\<open>x[0]\<close>: the first element of a list, the first character of a string,
  \<^verbatim>\<open>IndexError\<close> when they are empty, \<^verbatim>\<open>KeyError\<close> on a \<^verbatim>\<open>dict\<close> (whose keys are
  strings), \<^verbatim>\<open>TypeError\<close> on anything else.
\<close>

definition utf8_continuation :: "char \<Rightarrow> bool" where
  "utf8_continuation c = (let n = (of_char c :: nat) in 128 \<le> n \<and> n < 192)"

fun py_index0 :: "json \<Rightarrow> string + json" where
  "py_index0 (JArr []) = Inl ''list index out of range''"
| "py_index0 (JArr (x # xs)) = Inr x"
| "py_index0 (JStr []) = Inl ''string index out of range''"
| "py_index0 (JStr (c # cs)) = Inr (JStr (c # takeWhile utf8_continuation cs))"
| "py_index0 (JObj kvs) = Inl ''0''"
| "py_index0 x = Inl (squote @ type_name x @ squote @ '' object is not subscriptable'')"

definition and_then :: "'e + 'a \<Rightarrow> ('a \<Rightarrow> 'e + 'b) \<Rightarrow> 'e + 'b" where
  "and_then r f = (case r of Inl e \<Rightarrow> Inl e | Inr x \<Rightarrow> f x)"

text \<open>
  The expression both callers of the generation service apply to the decoded reply:
  \<^verbatim>\<open>result.get('candidates', [{}])[0].get('content', {}).get('parts', [{}])[0].get('text', d)\<close>
\<close>

definition candidate_text :: "json \<Rightarrow> json \<Rightarrow> string + json" where
  "candidate_text result d =
     and_then (py_get result ''candidates'' (JArr [JObj []])) (\<lambda>cs.
     and_then (py_index0 cs) (\<lambda>c.
     and_then (py_get c ''content'' (JObj [])) (\<lambda>ct.
     and_then (py_get ct ''parts'' (JArr [JObj []])) (\<lambda>ps.
     and_then (py_index0 ps) (\<lambda>p.
     py_get p ''text'' d)))))"

text \<open>\<^verbatim>\<open>response.raise_for_status()\<close> raises for the statuses 400 to 599.\<close>

definition raises_for_status :: "response \<Rightarrow> bool" where
  "raises_for_status r = (400 \<le> status_code r \<and> status_code r < 600)"

section \<open>The Video-ID Extractor\<close>

subsection \<open>\<^verbatim>\<open>urlparse(url).query\<close>\<close>

text \<open>
  The URL library strips leading control characters and spaces, deletes tabs and line
  breaks, takes a scheme off the front (letters, digits, \<open>+\<close>, \<open>-\<close>, \<open>.\<close> up to the first
  colon, starting with a letter), and after \<open>//\<close> reads the network location up to the
  first of \<open>/\<close>, \<open>?\<close>, \<open>#\<close>. It raises \<^verbatim>\<open>ValueError\<close> when only one of the two square
  brackets occurs in the network location, or when its further validation rejects it.
  The query is what stands between the first \<open>?\<close> and the first \<open>#\<close> of the rest.
\<close>

definition c0_control_or_space :: "char \<Rightarrow> bool" where
  "c0_control_or_space c = ((of_char c :: nat) \<le> 32)"

definition unsafe_url_byte :: "char \<Rightarrow> bool" where
  "unsafe_url_byte c = (c = CHR 0x09 \<or> c = CHR 0x0D \<or> c = CHR 0x0A)"

definition ascii_alpha :: "char \<Rightarrow> bool" where
  "ascii_alpha c = (let n = (of_char c :: nat) in (65 \<le> n \<and> n \<le> 90) \<or> (97 \<le> n \<and> n \<le> 122))"

definition ascii_digit :: "char \<Rightarrow> bool" where
  "ascii_digit c = (let n = (of_char c :: nat) in 48 \<le> n \<and> n \<le> 57)"

definition scheme_char :: "char \<Rightarrow> bool" where
  "scheme_char c = (ascii_alpha c \<or> ascii_digit c \<or> c = CHR ''+'' \<or> c = CHR ''-'' \<or> c = CHR ''.'')"

definition strip_scheme :: "string \<Rightarrow> string" where
  "strip_scheme u =
     (case u of
        [] \<Rightarrow> u
      | c # cs \<Rightarrow>
          (let pre = takeWhile (\<lambda>x. x \<noteq> CHR '':'') u in
           if CHR '':'' \<in> set u \<and> pre \<noteq> [] \<and> ascii_alpha c \<and> list_all scheme_char pre
           then drop (Suc (length pre)) u
           else u))"

definition netloc_delim :: "char \<Rightarrow> bool" where
  "netloc_delim c = (c = CHR ''/'' \<or> c = CHR ''?'' \<or> c = CHR ''#'')"

definition query_of :: "string \<Rightarrow> string" where
  "query_of s =
     (let pre = takeWhile (\<lambda>x. x \<noteq> CHR ''#'') s in
      if CHR ''?'' \<in> set pre then drop 1 (dropWhile (\<lambda>x. x \<noteq> CHR ''?'') pre) else [])"

definition urlparse_query :: "world \<Rightarrow> string \<Rightarrow> exn + string" where
  "urlparse_query W url =
     (let u = strip_scheme (filter (\<lambda>c. \<not> unsafe_url_byte c) (dropWhile c0_control_or_space url)) in
      if take 2 u = ''//'' then
        (let netloc = takeWhile (\<lambda>c. \<not> netloc_delim c) (drop 2 u);
             rest = dropWhile (\<lambda>c. \<not> netloc_delim c) (drop 2 u) in
         if (CHR ''['' \<in> set netloc) \<noteq> (CHR '']'' \<in> set netloc)
         then Inl (Exn ValueError ''Invalid IPv6 URL'')
         else (case netloc_rejected W netloc of
                 Some m \<Rightarrow> Inl (Exn ValueError m)
               | None \<Rightarrow> Inr (query_of rest)))
      else Inr (query_of u))"

subsection \<open>\<^verbatim>\<open>parse_qs(query)\<close>\<close>

text \<open>
  The query is cut at every \<open>&\<close>; a field without \<open>=\<close> or with nothing after its first
  \<open>=\<close> is dropped; in name and value \<open>+\<close> becomes a space and \<open>%XX\<close> the byte \<open>XX\<close>. (The
  library then reads the bytes as UTF-8 and puts U+FFFD for a malformed sequence; the
  model keeps the bytes as they are.) \<open>parse_qs q k\<close> is the list \<^verbatim>\<open>parse_qs(q)[k]\<close>,
  empty when \<open>k\<close> is not a key of the dictionary.
\<close>

definition hex_value :: "char \<Rightarrow> nat option" where
  "hex_value c =
     (let n = (of_char c :: nat) in
      if 48 \<le> n \<and> n \<le> 57 then Some (n - 48)
      else if 65 \<le> n \<and> n \<le> 70 then Some (n - 55)
      else if 97 \<le> n \<and> n \<le> 102 then Some (n - 87)
      else None)"

fun unquote :: "string \<Rightarrow> string" where
  "unquote (c # a # b # rest) =
     (if c = CHR ''%'' then
        (case (hex_value a, hex_value b) of
           (Some x, Some y) \<Rightarrow> char_of (16 * x + y) # unquote rest
         | _ \<Rightarrow> c # unquote (a # b # rest))
      else c # unquote (a # b # rest))"
| "unquote (c # cs) = c # unquote cs"
| "unquote [] = []"

definition plus_to_space :: "string \<Rightarrow> string" where
  "plus_to_space s = map (\<lambda>c. if c = CHR ''+'' then CHR '' '' else c) s"

definition parse_field :: "string \<Rightarrow> (string \<times> string) list" where
  "parse_field nv =
     (if CHR ''='' \<in> set nv then
        (let name = takeWhile (\<lambda>x. x \<noteq> CHR ''='') nv;
             val = drop 1 (dropWhile (\<lambda>x. x \<noteq> CHR ''='') nv) in
         if val = [] then [] else [(unquote (plus_to_space name), unquote (plus_to_space val))])
      else [])"

definition parse_qsl :: "string \<Rightarrow> (string \<times> string) list" where
  "parse_qsl q = concat (map parse_field (split_on CHR ''&'' q))"

definition parse_qs :: "string \<Rightarrow> string \<Rightarrow> string list" where
  "parse_qs q k = map snd (filter (\<lambda>nv. fst nv = k) (parse_qsl q))"

subsection \<open>\<^verbatim>\<open>re.search(r'youtu\.be/([a-zA-Z0-9_-]{11})', url)\<close>\<close>

definition id_char :: "char \<Rightarrow> bool" where
  "id_char c = (ascii_alpha c \<or> ascii_digit c \<or> c = CHR ''_'' \<or> c = CHR ''-'')"

definition match_here :: "string \<Rightarrow> string option" where
  "match_here s =
     (let g = take 11 (drop 9 s) in
      if take 9 s = ''youtu.be/'' \<and> length g = 11 \<and> list_all id_char g then Some g else None)"

text \<open>The leftmost match: the group captured at the first position where the pattern fits.\<close>

fun re_search :: "string \<Rightarrow> string option" where
  "re_search [] = None"
| "re_search (c # cs) =
     (case match_here (c # cs) of
        Some g \<Rightarrow> Some g
      | None \<Rightarrow> re_search cs)"

subsection \<open>\<^verbatim>\<open>get_video_id\<close>\<close>

definition get_video_id :: "world \<Rightarrow> string \<Rightarrow> exn + string option" where
  "get_video_id W url =
     (case urlparse_query W url of
        Inl e \<Rightarrow> Inl e
      | Inr query \<Rightarrow>
          (case parse_qs query ''v'' of
             v # vs \<Rightarrow> Inr (Some v)
           | [] \<Rightarrow> Inr (re_search url)))"

section \<open>Calls of the generation service\<close>

definition GEMINI_MODEL :: string where
  "GEMINI_MODEL = ''gemini-2.5-flash-preview-05-20''"

definition API_KEY :: string where
  "API_KEY = []"

definition GEMINI_URL :: string where
  "GEMINI_URL = ''https://generativelanguage.googleapis.com/v1beta/models/'' @ GEMINI_MODEL
     @ '':generateContent?key='' @ API_KEY"

definition payload :: "json \<Rightarrow> string \<Rightarrow> json" where
  "payload content system_prompt =
     JObj [(''contents'', JArr [JObj [(''parts'', JArr [JObj [(''text'', content)]])]]),
           (''systemInstruction'', JObj [(''parts'', JArr [JObj [(''text'', JStr system_prompt)]])])]"

subsection \<open>\<^verbatim>\<open>translate_text\<close>\<close>

definition translate_prompt :: "string \<Rightarrow> string" where
  "translate_prompt source_lang =
     ''You are a professional translator. Translate the following text from '' @ source_lang
       @ '' to standard English.''"

definition translation_failed :: "string \<Rightarrow> json" where
  "translation_failed m = JStr (''Translation failed: '' @ m)"

text \<open>
  One \<^verbatim>\<open>requests.post\<close> inside one \<^verbatim>\<open>try\<close>; every exception of the body ends in the
  handler, which returns the placeholder. The function has no way to raise.
\<close>

definition translate_text :: "world \<Rightarrow> event list \<Rightarrow> string \<Rightarrow> string \<Rightarrow> json \<times> event list" where
  "translate_text W h txt source_lang =
     (let p = payload (JStr txt) (translate_prompt source_lang);
          h1 = h @ [HttpPost GEMINI_URL p] in
      case requests_post W h GEMINI_URL p of
        Inl m \<Rightarrow> (translation_failed m, h1)
      | Inr resp \<Rightarrow>
          if raises_for_status resp then (translation_failed (status_error resp), h1)
          else (case parsed_json resp of
                  Inl m \<Rightarrow> (translation_failed m, h1)
                | Inr result \<Rightarrow>
                    (case candidate_text result (JStr txt) of
                       Inl m \<Rightarrow> (translation_failed m, h1)
                     | Inr v \<Rightarrow> (v, h1))))"

subsection \<open>\<^verbatim>\<open>get_summary_gemini\<close>\<close>

definition summary_prompt :: string where
  "summary_prompt = ''You are a concise summarization expert. Summarize the following YouTube video transcript ''
     @ ''into 3-5 key bullet points capturing main topics and conclusions.''"

text \<open>
  The \<^verbatim>\<open>for attempt in range(retries)\<close> loop, entered at \<open>attempt\<close> with the current
  \<open>delay\<close>. It leaves by a \<^verbatim>\<open>return\<close> of its body, by a \<^verbatim>\<open>raise\<close> of one of its two
  handlers, or by running out of attempts, after which control reaches the statement
  that follows the loop.
\<close>

datatype loop_exit = Returned json | Raised exn | Exhausted

function attempts :: "world \<Rightarrow> json \<Rightarrow> nat \<Rightarrow> nat \<Rightarrow> nat \<Rightarrow> event list \<Rightarrow> loop_exit \<times> event list" where
  "attempts W p retries attempt delay h =
     (if retries \<le> attempt then (Exhausted, h)
      else
        (let h1 = h @ [HttpPost GEMINI_URL p] in
         case requests_post W h GEMINI_URL p of
           Inl m \<Rightarrow> (Raised (Exn PyException (''Gemini API call failed: '' @ m)), h1)
         | Inr resp \<Rightarrow>
             if raises_for_status resp then
               (if status_code resp \<in> {429, 500, 503} \<and> attempt < retries - 1
                then attempts W p retries (attempt + 1) (delay * 2) (h1 @ [Sleep delay])
                else (Raised (Exn PyException (''Gemini API error: '' @ status_error resp)), h1))
             else (case parsed_json resp of
                     Inl m \<Rightarrow> (Raised (Exn PyException (''Gemini API call failed: '' @ m)), h1)
                   | Inr result \<Rightarrow>
                       (case candidate_text result (JStr ''Summary failed.'') of
                          Inl m \<Rightarrow> (Raised (Exn PyException (''Gemini API call failed: '' @ m)), h1)
                        | Inr v \<Rightarrow> (Returned v, h1)))))"
  by pat_completeness auto
termination
  by (relation "measure (\<lambda>(W, p, retries, attempt, delay, h). retries - attempt)") auto

definition get_summary_gemini :: "world \<Rightarrow> event list \<Rightarrow> json \<Rightarrow> (exn + json) \<times> event list" where
  "get_summary_gemini W h transcript =
     (case attempts W (payload transcript summary_prompt) 5 0 2 h of
        (Returned v, h1) \<Rightarrow> (Inr v, h1)
      | (Raised e, h1) \<Rightarrow> (Inl e, h1)
      | (Exhausted, h1) \<Rightarrow> (Inr (JStr ''Summary generation failed.''), h1))"

section \<open>The Transcript Fetcher\<close>

subsection \<open>\<^verbatim>\<open>get_fallback_captions\<close>\<close>

text \<open>
  \<^verbatim>\<open>[node.text for node in root.findall('text') if node.text]\<close>: the texts of the
  children of the root whose tag is \<open>text\<close>, those without a text or with an empty one
  left out.
\<close>

definition caption_lines :: "xml \<Rightarrow> string list" where
  "caption_lines root =
     concat (map (\<lambda>node. case el_text node of
                            None \<Rightarrow> []
                          | Some t \<Rightarrow> (if t = [] then [] else [t]))
                 (filter (\<lambda>node. tag node = ''text'') (children root)))"

text \<open>
  \<^verbatim>\<open>raise NoTranscriptFound(m)\<close>: the constructor is called with one argument where
  it requires three, so what is raised is the \<^verbatim>\<open>TypeError\<close> of that call.
\<close>

definition raise_NoTranscriptFound :: "world \<Rightarrow> string \<Rightarrow> exn" where
  "raise_NoTranscriptFound W m = Exn TypeError (arity_error W)"

text \<open>
  The \<^verbatim>\<open>raise\<close> of the \<^verbatim>\<open>else\<close> branch stands inside the \<^verbatim>\<open>try\<close>, so that the
  handler catches what it raises and, with the text of that exception in its message,
  executes the second \<^verbatim>\<open>raise NoTranscriptFound\<close>, which no clause catches.
\<close>

definition get_fallback_captions :: "world \<Rightarrow> event list \<Rightarrow> string \<Rightarrow> (exn + json) \<times> event list" where
  "get_fallback_captions W h video_id =
     (let url = ''https://video.google.com/timedtext?lang=en&v='' @ video_id;
          h1 = h @ [HttpGet url];
          handler = (\<lambda>m. (Inl (raise_NoTranscriptFound W
                      (''Fallback captions failed for video '' @ video_id @ '': '' @ m)), h1)) in
      case requests_get W h url of
        Inl m \<Rightarrow> handler m
      | Inr resp \<Rightarrow>
          if status_code resp = 200 \<and> \<not> blank (body resp) then
            (case ET_fromstring W (body resp) of
               Inl m \<Rightarrow> handler m
             | Inr root \<Rightarrow> (Inr (JStr (join_sp (caption_lines root))), h1))
          else handler (msg (raise_NoTranscriptFound W
                 (''No transcripts or captions available for video '' @ video_id @ ''.''))))"

subsection \<open>\<^verbatim>\<open>get_transcript\<close>\<close>

text \<open>
  The body of the inner \<^verbatim>\<open>except NoTranscriptFound\<close> handler (lines 46 to 52). It runs
  inside two handlers, so an exception raised here is caught by no clause of
  \<^verbatim>\<open>get_transcript\<close> and leaves the function as it is.
\<close>

definition translate_listed :: "world \<Rightarrow> event list \<Rightarrow> string \<Rightarrow> (exn + json) \<times> event list" where
  "translate_listed W h video_id =
     (let h1 = h @ [ListTranscripts video_id] in
      case api_list_transcripts W h video_id of
        Inl e \<Rightarrow> (Inl e, h1)
      | Inr transcripts \<Rightarrow>
          (case find (\<lambda>t. language_code t \<noteq> ''en'') transcripts of
             Some transcript \<Rightarrow>
               (let h2 = h1 @ [Fetch transcript] in
                case api_fetch W h1 transcript of
                  Inl e \<Rightarrow> (Inl e, h2)
                | Inr segs \<Rightarrow>
                    (case translate_text W h2 (join_sp segs) (language transcript) of
                       (v, h3) \<Rightarrow> (Inr v, h3)))
           | None \<Rightarrow> get_fallback_captions W h1 video_id))"

text \<open>
  The outer \<^verbatim>\<open>try\<close> holds the first request only: the second request and everything
  after it run in the handler of \<^verbatim>\<open>NoTranscriptFound\<close>, out of reach of the clauses
  for \<^verbatim>\<open>TranscriptsDisabled\<close> and \<^verbatim>\<open>CouldNotRetrieveTranscript\<close>. The inner \<^verbatim>\<open>try\<close>
  holds the second request, and its \<^verbatim>\<open>except Exception\<close> takes every exception of
  that request but \<^verbatim>\<open>NoTranscriptFound\<close>.
\<close>

definition get_transcript :: "world \<Rightarrow> event list \<Rightarrow> string \<Rightarrow> (exn + json) \<times> event list" where
  "get_transcript W h video_id =
     (let h1 = h @ [GetTranscript video_id [''en'']] in
      case api_get_transcript W h video_id [''en''] of
        Inr transcript_list \<Rightarrow> (Inr (JStr (join_sp transcript_list)), h1)
      | Inl e \<Rightarrow>
          if cls e = NoTranscriptFound then
            (let h2 = h1 @ [GetTranscript video_id [''a.en'']] in
             case api_get_transcript W h1 video_id [''a.en''] of
               Inr transcript_list \<Rightarrow> (Inr (JStr (join_sp transcript_list)), h2)
             | Inl e2 \<Rightarrow>
                 if cls e2 = NoTranscriptFound then translate_listed W h2 video_id
                 else (Inl (Exn PyException (''Transcript retrieval error: '' @ msg e2)), h2))
          else if cls e = TranscriptsDisabled then get_fallback_captions W h1 video_id
          else if cls e = CouldNotRetrieveTranscript then
            (Inl (Exn CouldNotRetrieveTranscript
               (retrieve_message W
                  (''Transcript Error: Could not retrieve transcript for video (ID: '' @ video_id
                     @ ''). Reason: '' @ msg e))), h1)
          else (Inl e, h1))"

section \<open>The HTTP endpoint\<close>

definition error_body :: "string \<Rightarrow> json" where
  "error_body m = JObj [(''error'', JStr m)]"

text \<open>The two \<^verbatim>\<open>except\<close> clauses of the handler, in their order.\<close>

definition failure_reply :: "exn \<Rightarrow> event list \<Rightarrow> (exn + json \<times> nat) \<times> event list" where
  "failure_reply e h =
     (if cls e \<in> {NoTranscriptFound, TranscriptsDisabled, CouldNotRetrieveTranscript}
      then (Inr (error_body (msg e), 404), h)
      else (Inr (error_body ''Internal error occurred. Ensure video has English captions.'', 500),
            h @ [Print (''Internal Error: '' @ msg e)]))"

text \<open>
  The argument is the \<open>url\<close> parameter of the request, \<open>None\<close> when the request has
  none. The result is the body and the status the view returns, or the exception that
  leaves the view: \<^verbatim>\<open>get_video_id\<close> is called outside the \<^verbatim>\<open>try\<close>.
\<close>

definition summary_api :: "world \<Rightarrow> event list \<Rightarrow> string option \<Rightarrow> (exn + json \<times> nat) \<times> event list" where
  "summary_api W h arg =
     (let url = (case arg of None \<Rightarrow> [] | Some u \<Rightarrow> u) in
      if url = [] then (Inr (error_body ''No URL provided.'', 400), h)
      else
        (case get_video_id W url of
           Inl e \<Rightarrow> (Inl e, h)
         | Inr None \<Rightarrow> (Inr (error_body ''Invalid YouTube URL format.'', 400), h)
         | Inr (Some video_id) \<Rightarrow>
             if video_id = [] then (Inr (error_body ''Invalid YouTube URL format.'', 400), h)
             else
               (case get_transcript W h video_id of
                  (Inl e, h1) \<Rightarrow> failure_reply e h1
                | (Inr transcript, h1) \<Rightarrow>
                    if \<not> truthy transcript then (Inr (error_body ''Transcript is empty.'', 404), h1)
                    else
                      (case get_summary_gemini W h1 transcript of
                         (Inl e, h2) \<Rightarrow> failure_reply e h2
                       | (Inr summary, h2) \<Rightarrow> (Inr (JObj [(''summary'', summary)], 200), h2)))))"

section \<open>Histories and example worlds\<close>

text \<open>
  The history of a loop that was answered with a retryable status \<open>k\<close> times in a row:
  a request and a sleep each time, the sleep twice as long as the one before.
\<close>

fun rounds :: "json \<Rightarrow> nat \<Rightarrow> nat \<Rightarrow> event list" where
  "rounds p d 0 = []"
| "rounds p d (Suc k) = HttpPost GEMINI_URL p # Sleep d # rounds p (d * 2) k"

text \<open>The generation service answers the request made at history \<open>h\<close> with 429, 500 or 503.\<close>

definition retryable :: "world \<Rightarrow> event list \<Rightarrow> json \<Rightarrow> bool" where
  "retryable W h p =
     (case requests_post W h GEMINI_URL p of
        Inl m \<Rightarrow> False
      | Inr resp \<Rightarrow> status_code resp \<in> {429, 500, 503})"

fun sleeps :: "event list \<Rightarrow> nat list" where
  "sleeps [] = []"
| "sleeps (Sleep n # es) = n # sleeps es"
| "sleeps (e # es) = sleeps es"

fun posts :: "event list \<Rightarrow> json list" where
  "posts [] = []"
| "posts (HttpPost u p # es) = p # posts es"
| "posts (e # es) = posts es"

text \<open>A world in which nothing can be reached, and the replies the examples put into it.\<close>

definition unreachable :: world where
  "unreachable =
     \<lparr> api_get_transcript = (\<lambda>h v l. Inl (Exn NoTranscriptFound ''no transcript'')),
       api_list_transcripts = (\<lambda>h v. Inr []),
       api_fetch = (\<lambda>h t. Inr []),
       requests_get = (\<lambda>h u. Inl ''connection refused''),
       requests_post = (\<lambda>h u p. Inl ''connection refused''),
       ET_fromstring = (\<lambda>s. Inl ''syntax error''),
       netloc_rejected = (\<lambda>n. None),
       retrieve_message = (\<lambda>v. ''Could not retrieve a transcript for the video '' @ v),
       arity_error = ''missing 2 required positional arguments'' \<rparr>"

definition reply :: "nat \<Rightarrow> string \<Rightarrow> string + json \<Rightarrow> response" where
  "reply st txt j = \<lparr> status_code = st, body = txt, parsed_json = j, status_error = ''HTTP error'' \<rparr>"

definition always_busy :: world where
  "always_busy = unreachable \<lparr> requests_post := (\<lambda>h u p. Inr (reply 503 [] (Inl ''no document''))) \<rparr>"

definition no_transcript :: exn where
  "no_transcript = Exn NoTranscriptFound ''no transcript''"

definition disabled :: exn where
  "disabled = Exn TranscriptsDisabled ''disabled''"

definition english_world :: world where
  "english_world = unreachable
     \<lparr> api_get_transcript := (\<lambda>h v l. if l = [''en''] then Inr [''Hello'', ''world''] else Inl no_transcript) \<rparr>"

definition auto_world :: world where
  "auto_world = unreachable
     \<lparr> api_get_transcript := (\<lambda>h v l. if l = [''a.en''] then Inr [''Hello'', ''world''] else Inl no_transcript) \<rparr>"

definition caption_reply :: response where
  "caption_reply = reply 200 ''<transcript><text>a</text><text>b</text></transcript>'' (Inl ''no document'')"

definition caption_tree :: xml where
  "caption_tree = Element ''transcript'' None
     [Element ''text'' (Some ''a'') [], Element ''text'' (Some ''b'') []]"

definition disabled_first :: world where
  "disabled_first = unreachable
     \<lparr> api_get_transcript := (\<lambda>h v l. Inl disabled),
       requests_get := (\<lambda>h u. Inr caption_reply),
       ET_fromstring := (\<lambda>s. if s = body caption_reply then Inr caption_tree else Inl ''syntax error'') \<rparr>"

definition disabled_second :: world where
  "disabled_second = disabled_first
     \<lparr> api_get_transcript := (\<lambda>h v l. if l = [''en''] then Inl no_transcript else Inl disabled) \<rparr>"

definition disabled_listing :: world where
  "disabled_listing = disabled_first
     \<lparr> api_get_transcript := (\<lambda>h v l. Inl no_transcript),
       api_list_transcripts := (\<lambda>h v. Inl disabled) \<rparr>"

definition french :: track where
  "french = \<lparr> language_code = ''fr'', language = ''French'' \<rparr>"

definition translated :: json where
  "translated = JObj [(''candidates'', JArr [JObj [(''content'',
     JObj [(''parts'', JArr [JObj [(''text'', JStr ''Hello world'')]])])]])]"

definition french_world :: world where
  "french_world = unreachable
     \<lparr> api_list_transcripts := (\<lambda>h v. Inr [french]),
       api_fetch := (\<lambda>h t. Inr [''Bonjour'', ''le'', ''monde'']),
       requests_post := (\<lambda>h u p. Inr (reply 200 [] (Inr translated))) \<rparr>"


definition no_captions :: world where
  "no_captions = unreachable
     \<lparr> requests_get := (\<lambda>h u. Inr (reply 200 ''<transcript></transcript>'' (Inl ''no document''))),
       ET_fromstring := (\<lambda>s. if s = ''<transcript></transcript>'' then Inr (Element ''transcript'' None [])
                               else Inl ''syntax error'') \<rparr>"

definition bare_reply :: world where
  "bare_reply = unreachable \<lparr> requests_post := (\<lambda>h u p. Inr (reply 200 ''{}'' (Inr (JObj [])))) \<rparr>"

definition not_modified :: world where
  "not_modified = unreachable \<lparr> requests_post := (\<lambda>h u p. Inr (reply 304 [] (Inr translated))) \<rparr>"

definition retrieval_error :: world where
  "retrieval_error = unreachable
     \<lparr> api_get_transcript := (\<lambda>h v l. if l = [''en''] then Inl (Exn NoTranscriptFound ''no transcript'')
                                       else Inl (Exn CouldNotRetrieveTranscript ''request blocked'')) \<rparr>"

definition bullet_points :: json where
  "bullet_points = JObj [(''candidates'', JArr [JObj [(''content'',
     JObj [(''parts'', JArr [JObj [(''text'', JStr ''- a greeting'')]])])]])]"

definition summarizing :: world where
  "summarizing = unreachable
     \<lparr> api_get_transcript := (\<lambda>h v l. Inr [''Hello'', ''world'']),
       requests_post := (\<lambda>h u p. Inr (reply 200 [] (Inr bullet_points))) \<rparr>"

definition silent_video :: world where
  "silent_video = unreachable
     \<lparr> api_get_transcript := (\<lambda>h v l. Inl (Exn TranscriptsDisabled ''subtitles are disabled'')),
       requests_get := (\<lambda>h u. Inr (reply 200 ''<transcript/>'' (Inl ''no document''))),
       ET_fromstring := (\<lambda>s. if s = ''<transcript/>'' then Inr (Element ''transcript'' None [])
                               else Inl ''syntax error'') \<rparr>"

definition speechless :: world where
  "speechless = unreachable \<lparr> api_get_transcript := (\<lambda>h v l. Inr [''Hello'', ''world'']) \<rparr>"

definition busy_twice :: world where
  "busy_twice = unreachable
     \<lparr> requests_post := (\<lambda>h u p. if length (posts h) < 2 then Inr (reply 503 [] (Inl ''no document''))
                                     else Inr (reply 200 [] (Inr bullet_points))) \<rparr>"

definition forbidden :: world where
  "forbidden = unreachable \<lparr> requests_post := (\<lambda>h u p. Inr (reply 403 [] (Inl ''no document''))) \<rparr>"

text \<open>
  What an attempt that is not followed by another one ends with, from the answer to
  its request.
\<close>

definition final_exit :: "world \<Rightarrow> json \<Rightarrow> event list \<Rightarrow> loop_exit" where
  "final_exit W p h =
     (case requests_post W h GEMINI_URL p of
        Inl m \<Rightarrow> Raised (Exn PyException (''Gemini API call failed: '' @ m))
      | Inr resp \<Rightarrow>
          if 400 \<le> status_code resp \<and> status_code resp < 600
          then Raised (Exn PyException (''Gemini API error: '' @ status_error resp))
          else (case parsed_json resp of
                  Inl m \<Rightarrow> Raised (Exn PyException (''Gemini API call failed: '' @ m))
                | Inr result \<Rightarrow>
                    (case candidate_text result (JStr ''Summary failed.'') of
                       Inl m \<Rightarrow> Raised (Exn PyException (''Gemini API call failed: '' @ m))
                     | Inr v \<Rightarrow> Returned v)))"

definition numeric_text :: world where
  "numeric_text = unreachable
     \<lparr> requests_post := (\<lambda>h u p. Inr (reply 200 [] (Inr (JObj [(''candidates'', JArr [JObj [(''content'',
          JObj [(''parts'', JArr [JObj [(''text'', JNum 5)]])])]])])))) \<rparr>"

definition unavailable :: world where
  "unavailable = unreachable
     \<lparr> api_get_transcript := (\<lambda>h v l. Inl (Exn CouldNotRetrieveTranscript ''video unavailable'')) \<rparr>"

definition hidden_tracks :: world where
  "hidden_tracks = unreachable
     \<lparr> api_list_transcripts := (\<lambda>h v. Inl (Exn TranscriptsDisabled ''subtitles are disabled'')) \<rparr>"

definition captions_missing :: world where
  "captions_missing = unreachable
     \<lparr> api_get_transcript := (\<lambda>h v l. Inl (Exn TranscriptsDisabled ''subtitles are disabled'')),
       requests_get := (\<lambda>h u. Inr (reply 404 ''Not Found'' (Inl ''no document''))) \<rparr>"

definition captions_broken :: world where
  "captions_broken = unreachable
     \<lparr> requests_get := (\<lambda>h u. Inr (reply 200 ''<transcript>'' (Inl ''no document''))),
       ET_fromstring := (\<lambda>s. Inl ''no element found'') \<rparr>"

section \<open>The retry loop of the Summarizer\<close>

declare attempts.simps [simp del]

lemma attempts_retry:
  assumes "Suc attempt < retries" and "retryable W h p"
  shows "attempts W p retries attempt delay h =
         attempts W p retries (Suc attempt) (delay * 2) (h @ [HttpPost GEMINI_URL p, Sleep delay])"
  using assms
  by (subst attempts.simps)
     (auto simp: retryable_def raises_for_status_def Let_def split: sum.splits)

lemma attempts_last:
  assumes "attempt < retries" and "\<not> (Suc attempt < retries \<and> retryable W h p)"
  shows "snd (attempts W p retries attempt delay h) = h @ [HttpPost GEMINI_URL p]"
    and "fst (attempts W p retries attempt delay h) \<noteq> Exhausted"
    and "requests_post W h GEMINI_URL p = Inr resp \<Longrightarrow> raises_for_status resp \<Longrightarrow>
         fst (attempts W p retries attempt delay h) =
           Raised (Exn PyException (''Gemini API error: '' @ status_error resp))"
  using assms
  by (subst attempts.simps; auto simp: retryable_def Let_def split: sum.splits)+

text \<open>
  The shape of every run of the loop: \<open>k\<close> rounds, each answered with a retryable
  status, then one last request whose answer ends the loop by a return or a raise.
\<close>

lemma attempts_shape:
  "attempt < retries \<Longrightarrow>
   \<exists>k. attempt + k < retries
     \<and> snd (attempts W p retries attempt delay h) = h @ rounds p delay k @ [HttpPost GEMINI_URL p]
     \<and> (\<forall>i<k. retryable W (h @ rounds p delay i) p)
     \<and> (retryable W (h @ rounds p delay k) p \<longrightarrow> Suc (attempt + k) = retries)
     \<and> fst (attempts W p retries attempt delay h) \<noteq> Exhausted
     \<and> (\<forall>resp. requests_post W (h @ rounds p delay k) GEMINI_URL p = Inr resp \<longrightarrow>
           raises_for_status resp \<longrightarrow>
           fst (attempts W p retries attempt delay h) =
             Raised (Exn PyException (''Gemini API error: '' @ status_error resp)))"
proof (induction "retries - attempt" arbitrary: attempt delay h)
  case 0
  then show ?case by simp
next
  case (Suc n)
  show ?case
  proof (cases "Suc attempt < retries \<and> retryable W h p")
    case False
    have "attempt + 0 < retries"
      using Suc.prems by simp
    moreover have "retryable W h p \<longrightarrow> Suc (attempt + 0) = retries"
      using False Suc.prems by auto
    ultimately show ?thesis
      using attempts_last[OF Suc.prems False]
      by (intro exI[of _ 0]) simp
  next
    case True
    let ?h = "h @ [HttpPost GEMINI_URL p, Sleep delay]"
    have eq: "attempts W p retries attempt delay h =
              attempts W p retries (Suc attempt) (delay * 2) ?h"
      using True by (simp add: attempts_retry)
    have "n = retries - Suc attempt"
      using Suc.hyps(2) by simp
    from Suc.hyps(1)[OF this, of "delay * 2" ?h] True
    obtain k where k: "Suc attempt + k < retries"
      "snd (attempts W p retries (Suc attempt) (delay * 2) ?h) =
         ?h @ rounds p (delay * 2) k @ [HttpPost GEMINI_URL p]"
      "\<forall>i<k. retryable W (?h @ rounds p (delay * 2) i) p"
      "retryable W (?h @ rounds p (delay * 2) k) p \<longrightarrow> Suc (Suc attempt + k) = retries"
      "fst (attempts W p retries (Suc attempt) (delay * 2) ?h) \<noteq> Exhausted"
      "\<forall>resp. requests_post W (?h @ rounds p (delay * 2) k) GEMINI_URL p = Inr resp \<longrightarrow>
           raises_for_status resp \<longrightarrow>
           fst (attempts W p retries (Suc attempt) (delay * 2) ?h) =
             Raised (Exn PyException (''Gemini API error: '' @ status_error resp))"
      by blast
    have r: "\<And>i. ?h @ rounds p (delay * 2) i = h @ rounds p delay (Suc i)"
      by simp
    have all: "\<forall>i<Suc k. retryable W (h @ rounds p delay i) p"
    proof (intro allI impI)
      fix i assume less: "i < Suc k"
      show "retryable W (h @ rounds p delay i) p"
      proof (cases i)
        case 0
        then show ?thesis using True by simp
      next
        case (Suc j)
        then have "j < k" using less by simp
        then show ?thesis using k(3) Suc r by metis
      qed
    qed
    show ?thesis
      apply (rule exI[of _ "Suc k"])
      unfolding eq
      using k all unfolding r by simp
  qed
qed

lemma sleeps_append: "sleeps (xs @ ys) = sleeps xs @ sleeps ys"
  by (induction xs rule: sleeps.induct) simp_all

lemma posts_append: "posts (xs @ ys) = posts xs @ posts ys"
  by (induction xs rule: posts.induct) simp_all

lemma posts_rounds: "posts (rounds p d k) = replicate k p"
  by (induction k arbitrary: d) simp_all

lemma schedule: "k < 5 \<Longrightarrow> sleeps (rounds p 2 k) = take k [2, 4, 8, 16]"
proof -
  assume "k < 5"
  then consider "k = 0" | "k = Suc 0" | "k = Suc (Suc 0)" | "k = Suc (Suc (Suc 0))"
    | "k = Suc (Suc (Suc (Suc 0)))"
    by linarith
  then show ?thesis
    by cases simp_all
qed

text \<open>
  Claim C2. For every transcript the Summarizer makes at most five requests. Between
  two requests it sleeps, first 2 units and then twice as long each time (2, 4, 8, 16),
  and it goes on to another request only after the service has answered with status
  429, 500 or 503. When the answer to its last request is an HTTP error, be it one of
  another status or the fifth retryable one, it raises an exception that carries the
  text of that error and returns no value.
\<close>

theorem summarizer_retry_policy:
  fixes W h transcript
  defines "p \<equiv> payload transcript summary_prompt"
  shows "\<exists>k<5.
      snd (get_summary_gemini W h transcript) = h @ rounds p 2 k @ [HttpPost GEMINI_URL p]
    \<and> length (posts (rounds p 2 k @ [HttpPost GEMINI_URL p])) = Suc k
    \<and> sleeps (rounds p 2 k @ [HttpPost GEMINI_URL p]) = take k [2, 4, 8, 16]
    \<and> (\<forall>i<k. retryable W (h @ rounds p 2 i) p)
    \<and> (retryable W (h @ rounds p 2 k) p \<longrightarrow> k = 4)
    \<and> (\<forall>resp. requests_post W (h @ rounds p 2 k) GEMINI_URL p = Inr resp \<longrightarrow>
          raises_for_status resp \<longrightarrow>
          fst (get_summary_gemini W h transcript) =
            Inl (Exn PyException (''Gemini API error: '' @ status_error resp)))"
proof -
  have "(0::nat) < 5" by simp
  from attempts_shape[OF this, of W p 2 h]
  obtain k where k: "0 + k < 5"
    "snd (attempts W p 5 0 2 h) = h @ rounds p 2 k @ [HttpPost GEMINI_URL p]"
    "\<forall>i<k. retryable W (h @ rounds p 2 i) p"
    "retryable W (h @ rounds p 2 k) p \<longrightarrow> Suc (0 + k) = 5"
    "fst (attempts W p 5 0 2 h) \<noteq> Exhausted"
    "\<forall>resp. requests_post W (h @ rounds p 2 k) GEMINI_URL p = Inr resp \<longrightarrow>
       raises_for_status resp \<longrightarrow>
       fst (attempts W p 5 0 2 h) = Raised (Exn PyException (''Gemini API error: '' @ status_error resp))"
    by blast
  have s: "snd (get_summary_gemini W h transcript) = snd (attempts W p 5 0 2 h)"
    unfolding get_summary_gemini_def p_def
    by (cases "attempts W (payload transcript summary_prompt) 5 0 2 h")
       (simp split: loop_exit.splits)
  have f: "\<And>e. fst (attempts W p 5 0 2 h) = Raised e \<Longrightarrow> fst (get_summary_gemini W h transcript) = Inl e"
    unfolding get_summary_gemini_def p_def
    by (cases "attempts W (payload transcript summary_prompt) 5 0 2 h") simp
  have "k < 5" using k(1) by simp
  moreover have "sleeps (rounds p 2 k @ [HttpPost GEMINI_URL p]) = take k [2, 4, 8, 16]"
    using \<open>k < 5\<close> by (simp add: sleeps_append schedule)
  moreover have "length (posts (rounds p 2 k @ [HttpPost GEMINI_URL p])) = Suc k"
    by (simp add: posts_append posts_rounds)
  ultimately show ?thesis
    using k s f by (intro exI[of _ k]) auto
qed

theorem summarizer_retry_policy_witness:
  "retryable always_busy (rounds (payload (JStr ''hi'') summary_prompt) 2 4) (payload (JStr ''hi'') summary_prompt)
   \<and> sleeps (snd (get_summary_gemini always_busy [] (JStr ''hi''))) = [2, 4, 8, 16]
   \<and> length (posts (snd (get_summary_gemini always_busy [] (JStr ''hi'')))) = 5
   \<and> fst (get_summary_gemini always_busy [] (JStr ''hi'')) = Inl (Exn PyException ''Gemini API error: HTTP error'')
   \<and> sleeps (snd (get_summary_gemini busy_twice [] (JStr ''hi''))) = [2, 4]
   \<and> length (posts (snd (get_summary_gemini busy_twice [] (JStr ''hi'')))) = 3
   \<and> fst (get_summary_gemini busy_twice [] (JStr ''hi'')) = Inr (JStr ''- a greeting'')
   \<and> sleeps (snd (get_summary_gemini forbidden [] (JStr ''hi''))) = []
   \<and> length (posts (snd (get_summary_gemini forbidden [] (JStr ''hi'')))) = 1
   \<and> fst (get_summary_gemini forbidden [] (JStr ''hi'')) = Inl (Exn PyException ''Gemini API error: HTTP error'')"
  using summarizer_retry_policy[of always_busy "[]" "JStr ''hi''"]
        summarizer_retry_policy[of busy_twice "[]" "JStr ''hi''"]
        summarizer_retry_policy[of forbidden "[]" "JStr ''hi''"]
  by (simp add: get_summary_gemini_def attempts.simps always_busy_def busy_twice_def forbidden_def
        unreachable_def reply_def bullet_points_def retryable_def raises_for_status_def
        candidate_text_def and_then_def)

lemma candidate_text_found:
  assumes "map_of kvs ''candidates'' = Some (JArr (JObj c # cs))"
    and "map_of c ''content'' = Some (JObj ct)"
    and "map_of ct ''parts'' = Some (JArr (JObj pt # ps))"
    and "map_of pt ''text'' = Some v"
  shows "candidate_text (JObj kvs) d = Inr v"
  using assms by (simp add: candidate_text_def and_then_def)

lemma candidate_text_default:
  "map_of kvs ''candidates'' = None \<Longrightarrow> candidate_text (JObj kvs) d = Inr d"
  by (simp add: candidate_text_def and_then_def)

lemma attempts_final:
  assumes "attempt < retries" and "\<not> (Suc attempt < retries \<and> retryable W h p)"
  shows "fst (attempts W p retries attempt delay h) = final_exit W p h"
  using assms
  by (subst attempts.simps)
     (auto simp: final_exit_def retryable_def raises_for_status_def Let_def split: sum.splits)

lemma attempts_ending:
  "attempt < retries \<Longrightarrow>
   \<exists>k. attempt + k < retries
     \<and> snd (attempts W p retries attempt delay h) = h @ rounds p delay k @ [HttpPost GEMINI_URL p]
     \<and> fst (attempts W p retries attempt delay h) = final_exit W p (h @ rounds p delay k)"
proof (induction "retries - attempt" arbitrary: attempt delay h)
  case 0
  then show ?case by simp
next
  case (Suc n)
  show ?case
  proof (cases "Suc attempt < retries \<and> retryable W h p")
    case False
    have "attempt + 0 < retries"
      using Suc.prems by simp
    then show ?thesis
      using attempts_last(1)[OF Suc.prems False] attempts_final[OF Suc.prems False]
      by (intro exI[of _ 0]) simp
  next
    case True
    let ?h = "h @ [HttpPost GEMINI_URL p, Sleep delay]"
    have eq: "attempts W p retries attempt delay h =
              attempts W p retries (Suc attempt) (delay * 2) ?h"
      using True by (simp add: attempts_retry)
    have "n = retries - Suc attempt"
      using Suc.hyps(2) by simp
    from Suc.hyps(1)[OF this, of "delay * 2" ?h] True
    obtain k where k: "Suc attempt + k < retries"
      "snd (attempts W p retries (Suc attempt) (delay * 2) ?h) =
         ?h @ rounds p (delay * 2) k @ [HttpPost GEMINI_URL p]"
      "fst (attempts W p retries (Suc attempt) (delay * 2) ?h) =
         final_exit W p (?h @ rounds p (delay * 2) k)"
      by blast
    have r: "?h @ rounds p (delay * 2) k = h @ rounds p delay (Suc k)"
      by simp
    show ?thesis
      apply (rule exI[of _ "Suc k"])
      unfolding eq
      using k unfolding r by simp
  qed
qed

lemma final_exit_not_exhausted: "final_exit W p h \<noteq> Exhausted"
  by (simp add: final_exit_def split: sum.splits)

text \<open>
  Claim C10, as amended. The loop of the Summarizer is never left by running out of
  attempts, so the statement after it, which returns
  \<^verbatim>\<open>"Summary generation failed."\<close>, is never reached: the fifth attempt
  (\<open>attempt = 4\<close>) makes its request and then returns or raises, whatever the answer.
  What the Summarizer returns or raises is decided by the answer to its last request
  alone. It raises when the request fails, when the status is one of 400 to 599, when
  the body cannot be decoded and when the walk to the first part of the first
  candidate raises. Otherwise it returns what stands under \<open>text\<close> in that part, a
  value on which no check is made, or \<^verbatim>\<open>"Summary failed."\<close> when the document has no
  candidates.
\<close>

theorem summarizer_leaves_inside_loop:
  fixes W h transcript
  defines "p \<equiv> payload transcript summary_prompt"
  shows "fst (attempts W p 5 0 2 h) \<noteq> Exhausted
    \<and> fst (attempts W p 5 4 delay h') \<noteq> Exhausted
    \<and> snd (attempts W p 5 4 delay h') = h' @ [HttpPost GEMINI_URL p]
    \<and> (\<exists>k<5. snd (get_summary_gemini W h transcript) = h @ rounds p 2 k @ [HttpPost GEMINI_URL p]
        \<and> (\<forall>m. requests_post W (h @ rounds p 2 k) GEMINI_URL p = Inl m \<longrightarrow>
              fst (get_summary_gemini W h transcript) =
                Inl (Exn PyException (''Gemini API call failed: '' @ m)))
        \<and> (\<forall>resp. requests_post W (h @ rounds p 2 k) GEMINI_URL p = Inr resp \<longrightarrow>
              (400 \<le> status_code resp \<and> status_code resp < 600 \<longrightarrow>
                 fst (get_summary_gemini W h transcript) =
                   Inl (Exn PyException (''Gemini API error: '' @ status_error resp)))
            \<and> (\<not> (400 \<le> status_code resp \<and> status_code resp < 600) \<longrightarrow>
                 (\<forall>m. parsed_json resp = Inl m \<longrightarrow>
                    fst (get_summary_gemini W h transcript) =
                      Inl (Exn PyException (''Gemini API call failed: '' @ m)))
               \<and> (\<forall>result m. parsed_json resp = Inr result
                      \<and> candidate_text result (JStr ''Summary failed.'') = Inl m \<longrightarrow>
                    fst (get_summary_gemini W h transcript) =
                      Inl (Exn PyException (''Gemini API call failed: '' @ m)))
               \<and> (\<forall>kvs c cs ct pt ps v. parsed_json resp = Inr (JObj kvs)
                      \<and> map_of kvs ''candidates'' = Some (JArr (JObj c # cs))
                      \<and> map_of c ''content'' = Some (JObj ct)
                      \<and> map_of ct ''parts'' = Some (JArr (JObj pt # ps))
                      \<and> map_of pt ''text'' = Some v \<longrightarrow>
                    fst (get_summary_gemini W h transcript) = Inr v)
               \<and> (\<forall>kvs. parsed_json resp = Inr (JObj kvs) \<and> map_of kvs ''candidates'' = None \<longrightarrow>
                    fst (get_summary_gemini W h transcript) = Inr (JStr ''Summary failed.'')))))"
proof -
  have "(0::nat) < 5" by simp
  from attempts_ending[OF this, of W p 2 h]
  obtain k where k: "0 + k < 5"
    "snd (attempts W p 5 0 2 h) = h @ rounds p 2 k @ [HttpPost GEMINI_URL p]"
    "fst (attempts W p 5 0 2 h) = final_exit W p (h @ rounds p 2 k)"
    by blast
  have ne: "fst (attempts W p 5 0 2 h) \<noteq> Exhausted"
    using k(3) by (simp add: final_exit_not_exhausted)
  have s: "snd (get_summary_gemini W h transcript) = snd (attempts W p 5 0 2 h)"
    unfolding get_summary_gemini_def p_def
    by (cases "attempts W (payload transcript summary_prompt) 5 0 2 h")
       (simp split: loop_exit.splits)
  have f: "fst (get_summary_gemini W h transcript) =
      (case final_exit W p (h @ rounds p 2 k) of
         Returned v \<Rightarrow> Inr v | Raised e \<Rightarrow> Inl e | Exhausted \<Rightarrow> Inr (JStr ''Summary generation failed.''))"
    using k(3) unfolding get_summary_gemini_def p_def
    by (cases "attempts W (payload transcript summary_prompt) 5 0 2 h")
       (simp split: loop_exit.splits)
  have "(4::nat) < 5" and "\<not> (Suc 4 < (5::nat) \<and> retryable W h' p)"
    by simp_all
  note last = attempts_last(1,2)[OF this]
  have "k < 5" using k(1) by simp
  moreover have "\<forall>m. requests_post W (h @ rounds p 2 k) GEMINI_URL p = Inl m \<longrightarrow>
      fst (get_summary_gemini W h transcript) = Inl (Exn PyException (''Gemini API call failed: '' @ m))"
    by (simp add: f final_exit_def)
  moreover have "\<forall>resp. requests_post W (h @ rounds p 2 k) GEMINI_URL p = Inr resp \<longrightarrow>
              (400 \<le> status_code resp \<and> status_code resp < 600 \<longrightarrow>
                 fst (get_summary_gemini W h transcript) =
                   Inl (Exn PyException (''Gemini API error: '' @ status_error resp)))
            \<and> (\<not> (400 \<le> status_code resp \<and> status_code resp < 600) \<longrightarrow>
                 (\<forall>m. parsed_json resp = Inl m \<longrightarrow>
                    fst (get_summary_gemini W h transcript) =
                      Inl (Exn PyException (''Gemini API call failed: '' @ m)))
               \<and> (\<forall>result m. parsed_json resp = Inr result
                      \<and> candidate_text result (JStr ''Summary failed.'') = Inl m \<longrightarrow>
                    fst (get_summary_gemini W h transcript) =
                      Inl (Exn PyException (''Gemini API call failed: '' @ m)))
               \<and> (\<forall>kvs c cs ct pt ps v. parsed_json resp = Inr (JObj kvs)
                      \<and> map_of kvs ''candidates'' = Some (JArr (JObj c # cs))
                      \<and> map_of c ''content'' = Some (JObj ct)
                      \<and> map_of ct ''parts'' = Some (JArr (JObj pt # ps))
                      \<and> map_of pt ''text'' = Some v \<longrightarrow>
                    fst (get_summary_gemini W h transcript) = Inr v)
               \<and> (\<forall>kvs. parsed_json resp = Inr (JObj kvs) \<and> map_of kvs ''candidates'' = None \<longrightarrow>
                    fst (get_summary_gemini W h transcript) = Inr (JStr ''Summary failed.'')))"
    by (auto simp: f final_exit_def candidate_text_found candidate_text_default)
  moreover have "snd (get_summary_gemini W h transcript) = h @ rounds p 2 k @ [HttpPost GEMINI_URL p]"
    using s k(2) by simp
  ultimately have "\<exists>k<5. snd (get_summary_gemini W h transcript) = h @ rounds p 2 k @ [HttpPost GEMINI_URL p]
        \<and> (\<forall>m. requests_post W (h @ rounds p 2 k) GEMINI_URL p = Inl m \<longrightarrow>
              fst (get_summary_gemini W h transcript) =
                Inl (Exn PyException (''Gemini API call failed: '' @ m)))
        \<and> (\<forall>resp. requests_post W (h @ rounds p 2 k) GEMINI_URL p = Inr resp \<longrightarrow>
              (400 \<le> status_code resp \<and> status_code resp < 600 \<longrightarrow>
                 fst (get_summary_gemini W h transcript) =
                   Inl (Exn PyException (''Gemini API error: '' @ status_error resp)))
            \<and> (\<not> (400 \<le> status_code resp \<and> status_code resp < 600) \<longrightarrow>
                 (\<forall>m. parsed_json resp = Inl m \<longrightarrow>
                    fst (get_summary_gemini W h transcript) =
                      Inl (Exn PyException (''Gemini API call failed: '' @ m)))
               \<and> (\<forall>result m. parsed_json resp = Inr result
                      \<and> candidate_text result (JStr ''Summary failed.'') = Inl m \<longrightarrow>
                    fst (get_summary_gemini W h transcript) =
                      Inl (Exn PyException (''Gemini API call failed: '' @ m)))
               \<and> (\<forall>kvs c cs ct pt ps v. parsed_json resp = Inr (JObj kvs)
                      \<and> map_of kvs ''candidates'' = Some (JArr (JObj c # cs))
                      \<and> map_of c ''content'' = Some (JObj ct)
                      \<and> map_of ct ''parts'' = Some (JArr (JObj pt # ps))
                      \<and> map_of pt ''text'' = Some v \<longrightarrow>
                    fst (get_summary_gemini W h transcript) = Inr v)
               \<and> (\<forall>kvs. parsed_json resp = Inr (JObj kvs) \<and> map_of kvs ''candidates'' = None \<longrightarrow>
                    fst (get_summary_gemini W h transcript) = Inr (JStr ''Summary failed.''))))"
    by (intro exI[of _ k] conjI) assumption+
  then show ?thesis
    using ne last by (intro conjI) assumption+
qed

theorem summarizer_leaves_inside_loop_witness:
  "fst (get_summary_gemini summarizing [] (JStr ''Hello world'')) = Inr (JStr ''- a greeting'')
   \<and> fst (get_summary_gemini busy_twice [] (JStr ''Hello world'')) = Inr (JStr ''- a greeting'')
   \<and> fst (get_summary_gemini bare_reply [] (JStr ''Hello world'')) = Inr (JStr ''Summary failed.'')
   \<and> fst (get_summary_gemini unreachable [] (JStr ''Hello world'')) =
       Inl (Exn PyException ''Gemini API call failed: connection refused'')
   \<and> fst (get_summary_gemini always_busy [] (JStr ''Hello world'')) =
       Inl (Exn PyException ''Gemini API error: HTTP error'')"
proof -
  have "fst (get_summary_gemini summarizing [] (JStr ''Hello world'')) = Inr (JStr ''- a greeting'')"
    by code_simp
  moreover have "fst (get_summary_gemini busy_twice [] (JStr ''Hello world'')) = Inr (JStr ''- a greeting'')"
    by code_simp
  moreover have "fst (get_summary_gemini bare_reply [] (JStr ''Hello world'')) = Inr (JStr ''Summary failed.'')"
    by code_simp
  moreover have "fst (get_summary_gemini unreachable [] (JStr ''Hello world'')) =
       Inl (Exn PyException ''Gemini API call failed: connection refused'')"
    by code_simp
  moreover have "fst (get_summary_gemini always_busy [] (JStr ''Hello world'')) =
       Inl (Exn PyException ''Gemini API error: HTTP error'')"
    by code_simp
  ultimately show ?thesis
    using summarizer_leaves_inside_loop[of summarizing "JStr ''Hello world''" "[]"]
          summarizer_leaves_inside_loop[of unreachable "JStr ''Hello world''" "[]"]
    by simp
qed

text \<open>
  The claim as it stands has the Summarizer return a string. It returns what the
  document holds under \<open>text\<close>, here the number 5.
\<close>

theorem summarizer_returns_number_counterexample:
  "requests_post numeric_text [] GEMINI_URL (payload (JStr ''Hello world'') summary_prompt) =
     Inr (reply 200 [] (Inr (JObj [(''candidates'', JArr [JObj [(''content'',
          JObj [(''parts'', JArr [JObj [(''text'', JNum 5)]])])]])])))
   \<and> fst (get_summary_gemini numeric_text [] (JStr ''Hello world'')) = Inr (JNum 5)"
proof -
  have "fst (get_summary_gemini numeric_text [] (JStr ''Hello world'')) = Inr (JNum 5)"
    by code_simp
  then show ?thesis
    by (simp add: numeric_text_def unreachable_def)
qed

section \<open>The fall-back chain of the Fetcher\<close>

lemma fallback_history:
  "snd (get_fallback_captions W h vid) = h @ [HttpGet (''https://video.google.com/timedtext?lang=en&v='' @ vid)]"
  by (simp add: get_fallback_captions_def Let_def split: sum.splits)

lemma fallback_raises_type_error:
  "fst (get_fallback_captions W h vid) = Inl e \<Longrightarrow> cls e = TypeError"
  by (auto simp: get_fallback_captions_def raise_NoTranscriptFound_def Let_def
        split: sum.splits if_splits)

lemma join_sp_closed:
  "join_sp segs = (case segs of [] \<Rightarrow> [] | x # xs \<Rightarrow> x @ concat (map (\<lambda>y. CHR '' '' # y) xs))"
  by (induction segs rule: join_sp.induct) simp_all

lemma translate_history:
  "snd (translate_text W h txt lang) = h @ [HttpPost GEMINI_URL (payload (JStr txt) (translate_prompt lang))]"
  by (simp add: translate_text_def Let_def split: sum.splits)



text \<open>
  Claim C4. For every video id the first call of the Fetcher is the request for the
  English track. When it succeeds the Fetcher returns the texts of the segments, joined
  in their order with single spaces, and makes no other call. The auto-generated
  English track (\<open>a.en\<close>) is requested only after the first request has failed with
  ``no transcript'', and when that second request succeeds its segments are returned,
  joined the same way, after these two calls alone.
\<close>

theorem english_tracks_first:
  "(\<exists>t. snd (get_transcript W h vid) = h @ GetTranscript vid [''en''] # t)
   \<and> (api_get_transcript W h vid [''en''] = Inr segs \<longrightarrow>
        get_transcript W h vid =
          (Inr (JStr (case segs of [] \<Rightarrow> [] | x # xs \<Rightarrow> x @ concat (map (\<lambda>y. CHR '' '' # y) xs))),
           h @ [GetTranscript vid [''en'']]))
   \<and> (api_get_transcript W h vid [''en''] = Inl e \<and> cls e = NoTranscriptFound
        \<and> api_get_transcript W (h @ [GetTranscript vid [''en'']]) vid [''a.en''] = Inr segs' \<longrightarrow>
        get_transcript W h vid =
          (Inr (JStr (case segs' of [] \<Rightarrow> [] | x # xs \<Rightarrow> x @ concat (map (\<lambda>y. CHR '' '' # y) xs))),
           h @ [GetTranscript vid [''en''], GetTranscript vid [''a.en'']]))
   \<and> (GetTranscript vid [''a.en''] \<in> set (drop (length h) (snd (get_transcript W h vid))) \<longrightarrow>
        (\<exists>e. api_get_transcript W h vid [''en''] = Inl e \<and> cls e = NoTranscriptFound))"
proof (intro conjI impI)
  show "\<exists>t. snd (get_transcript W h vid) = h @ GetTranscript vid [''en''] # t"
    by (auto simp: get_transcript_def translate_listed_def Let_def fallback_history translate_history
          split_beta split: sum.splits option.splits)
next
  assume "api_get_transcript W h vid [''en''] = Inr segs"
  then show "get_transcript W h vid =
          (Inr (JStr (case segs of [] \<Rightarrow> [] | x # xs \<Rightarrow> x @ concat (map (\<lambda>y. CHR '' '' # y) xs))),
           h @ [GetTranscript vid [''en'']])"
    by (simp add: get_transcript_def join_sp_closed)
next
  assume "api_get_transcript W h vid [''en''] = Inl e \<and> cls e = NoTranscriptFound
        \<and> api_get_transcript W (h @ [GetTranscript vid [''en'']]) vid [''a.en''] = Inr segs'"
  then show "get_transcript W h vid =
          (Inr (JStr (case segs' of [] \<Rightarrow> [] | x # xs \<Rightarrow> x @ concat (map (\<lambda>y. CHR '' '' # y) xs))),
           h @ [GetTranscript vid [''en''], GetTranscript vid [''a.en'']])"
    by (simp add: get_transcript_def join_sp_closed)
next
  assume a: "GetTranscript vid [''a.en''] \<in> set (drop (length h) (snd (get_transcript W h vid)))"
  show "\<exists>e. api_get_transcript W h vid [''en''] = Inl e \<and> cls e = NoTranscriptFound"
  proof (cases "api_get_transcript W h vid [''en'']")
    case (Inr segs)
    then show ?thesis using a by (simp add: get_transcript_def)
  next
    case (Inl e)
    show ?thesis
    proof (cases "cls e = NoTranscriptFound")
      case True
      then show ?thesis using Inl by simp
    next
      case False
      then have "drop (length h) (snd (get_transcript W h vid)) = [GetTranscript vid [''en'']]
         \<or> drop (length h) (snd (get_transcript W h vid)) =
             [GetTranscript vid [''en''], HttpGet (''https://video.google.com/timedtext?lang=en&v='' @ vid)]"
        using Inl by (simp add: get_transcript_def fallback_history Let_def)
      then show ?thesis using a by auto
    qed
  qed
qed

theorem english_tracks_first_witness:
  "get_transcript english_world [] ''dQw4w9WgXcQ'' =
     (Inr (JStr ''Hello world''), [GetTranscript ''dQw4w9WgXcQ'' [''en'']])
   \<and> get_transcript auto_world [] ''dQw4w9WgXcQ'' =
     (Inr (JStr ''Hello world''),
      [GetTranscript ''dQw4w9WgXcQ'' [''en''], GetTranscript ''dQw4w9WgXcQ'' [''a.en'']])
   \<and> api_get_transcript auto_world [] ''dQw4w9WgXcQ'' [''en''] = Inl no_transcript
   \<and> cls no_transcript = NoTranscriptFound"
  using english_tracks_first[of english_world "[]" "''dQw4w9WgXcQ''" "[''Hello'', ''world'']"]
        english_tracks_first[of auto_world "[]" "''dQw4w9WgXcQ''" _ no_transcript "[''Hello'', ''world'']"]
  by (simp add: english_world_def auto_world_def unreachable_def no_transcript_def)



text \<open>
  Claim C3, as amended. When the upstream signals ``transcripts disabled'' in answer
  to the first request, the one for the English track, the Fetcher goes directly to the
  fallback scrape and its outcome is the outcome of the scrape: the disabled error does
  not reach the caller.
\<close>

theorem disabled_at_first_fetch:
  assumes "api_get_transcript W h vid [''en''] = Inl e" and "cls e = TranscriptsDisabled"
  shows "get_transcript W h vid = get_fallback_captions W (h @ [GetTranscript vid [''en'']]) vid
    \<and> snd (get_transcript W h vid) =
        h @ [GetTranscript vid [''en''], HttpGet (''https://video.google.com/timedtext?lang=en&v='' @ vid)]
    \<and> (\<forall>x. fst (get_transcript W h vid) = Inl x \<longrightarrow> cls x \<noteq> TranscriptsDisabled)"
proof -
  have g: "get_transcript W h vid = get_fallback_captions W (h @ [GetTranscript vid [''en'']]) vid"
    using assms by (simp add: get_transcript_def)
  then show ?thesis
    using fallback_raises_type_error[of W "h @ [GetTranscript vid [''en'']]" vid]
    by (auto simp: fallback_history)
qed

theorem disabled_at_first_fetch_witness:
  "api_get_transcript disabled_first [] ''dQw4w9WgXcQ'' [''en''] = Inl disabled
   \<and> cls disabled = TranscriptsDisabled
   \<and> get_transcript disabled_first [] ''dQw4w9WgXcQ'' =
       (Inr (JStr ''a b''),
        [GetTranscript ''dQw4w9WgXcQ'' [''en''],
         HttpGet ''https://video.google.com/timedtext?lang=en&v=dQw4w9WgXcQ''])"
  using disabled_at_first_fetch[of disabled_first "[]" "''dQw4w9WgXcQ''" disabled]
  by (simp add: disabled_first_def unreachable_def disabled_def caption_reply_def caption_tree_def
        reply_def get_fallback_captions_def caption_lines_def ascii_space_def Let_def)

text \<open>
  The claim as it stands covers the later steps as well, and there it fails. A disabled
  signal in answer to the request for the auto-generated track is taken by the
  \<^verbatim>\<open>except Exception\<close> clause of the inner \<^verbatim>\<open>try\<close> and leaves the Fetcher as a
  plain ``Transcript retrieval error''; one raised while the tracks are listed leaves
  it unchanged. In neither run is the timed-text endpoint requested.
\<close>

theorem disabled_later_counterexample:
  "api_get_transcript disabled_second [GetTranscript ''dQw4w9WgXcQ'' [''en'']] ''dQw4w9WgXcQ'' [''a.en'']
     = Inl (Exn TranscriptsDisabled ''disabled'')
   \<and> get_transcript disabled_second [] ''dQw4w9WgXcQ'' =
       (Inl (Exn PyException ''Transcript retrieval error: disabled''),
        [GetTranscript ''dQw4w9WgXcQ'' [''en''], GetTranscript ''dQw4w9WgXcQ'' [''a.en'']])
   \<and> api_list_transcripts disabled_listing
        [GetTranscript ''dQw4w9WgXcQ'' [''en''], GetTranscript ''dQw4w9WgXcQ'' [''a.en'']] ''dQw4w9WgXcQ''
     = Inl (Exn TranscriptsDisabled ''disabled'')
   \<and> get_transcript disabled_listing [] ''dQw4w9WgXcQ'' =
       (Inl (Exn TranscriptsDisabled ''disabled''),
        [GetTranscript ''dQw4w9WgXcQ'' [''en''], GetTranscript ''dQw4w9WgXcQ'' [''a.en''],
         ListTranscripts ''dQw4w9WgXcQ''])"
  by (simp add: disabled_second_def disabled_listing_def disabled_first_def unreachable_def
        disabled_def no_transcript_def get_transcript_def translate_listed_def Let_def)

section \<open>The fallback scrape\<close>

lemma concat_map_member: "x \<in> set xs \<Longrightarrow> t \<in> set (f x) \<Longrightarrow> t \<in> set (concat (map f xs))"
  by auto

lemma caption_lines_iff:
  "t \<in> set (caption_lines root) \<longleftrightarrow>
     t \<noteq> [] \<and> (\<exists>node \<in> set (children root). tag node = ''text'' \<and> el_text node = Some t)"
proof
  assume "t \<in> set (caption_lines root)"
  then show "t \<noteq> [] \<and> (\<exists>node \<in> set (children root). tag node = ''text'' \<and> el_text node = Some t)"
    by (auto simp: caption_lines_def split: option.splits if_splits)
next
  assume "t \<noteq> [] \<and> (\<exists>node \<in> set (children root). tag node = ''text'' \<and> el_text node = Some t)"
  then obtain node where n: "t \<noteq> []" "node \<in> set (children root)" "tag node = ''text''"
      "el_text node = Some t"
    by blast
  have "node \<in> set (filter (\<lambda>node. tag node = ''text'') (children root))"
    using n by simp
  moreover have "t \<in> set (case el_text node of None \<Rightarrow> [] | Some t \<Rightarrow> (if t = [] then [] else [t]))"
    using n by simp
  ultimately show "t \<in> set (caption_lines root)"
    unfolding caption_lines_def by (rule concat_map_member)
qed

lemma fallback_success:
  assumes "requests_get W h (''https://video.google.com/timedtext?lang=en&v='' @ vid) = Inr resp"
    and "status_code resp = 200" and "\<not> blank (body resp)"
    and "ET_fromstring W (body resp) = Inr root"
  shows "fst (get_fallback_captions W h vid) = Inr (JStr (case caption_lines root of [] \<Rightarrow> [] | x # xs \<Rightarrow> x @ concat (map (\<lambda>y. CHR '' '' # y) xs)))"
  using assms by (simp add: get_fallback_captions_def Let_def join_sp_closed)

lemma scrape_of_empty_document:
  "get_fallback_captions no_captions [] ''dQw4w9WgXcQ'' =
     (Inr (JStr []), [HttpGet ''https://video.google.com/timedtext?lang=en&v=dQw4w9WgXcQ''])"
  by (simp add: no_captions_def unreachable_def reply_def get_fallback_captions_def caption_lines_def
        ascii_space_def Let_def)

text \<open>
  Claim C6 has the fallback scrape signal that no transcript is available whenever the
  answer is not 200, the body is empty or the XML cannot be used, and the code means to
  do so: each of its two failure paths executes \<^verbatim>\<open>raise NoTranscriptFound(...)\<close> with
  one message. The constructor of that class requires three arguments. So on every
  failure of the scrape (the request raises, the status is not 200, the body is blank,
  the parser rejects the body) what leaves the function is the \<^verbatim>\<open>TypeError\<close> of that
  call, which the endpoint answers with 500 where \<^verbatim>\<open>NoTranscriptFound\<close> gets 404.
\<close>

theorem scrape_failure_raises_type_error:
  fixes W h vid
  defines "url \<equiv> ''https://video.google.com/timedtext?lang=en&v='' @ vid"
  shows "requests_get W h url = Inl m
         \<or> (requests_get W h url = Inr resp
              \<and> (status_code resp \<noteq> 200 \<or> blank (body resp) \<or> ET_fromstring W (body resp) = Inl m)) \<longrightarrow>
        get_fallback_captions W h vid = (Inl (Exn TypeError (arity_error W)), h @ [HttpGet url])"
  unfolding url_def
  by (auto simp: get_fallback_captions_def raise_NoTranscriptFound_def Let_def split: sum.splits)

theorem scrape_failure_raises_type_error_witness:
  "requests_get unreachable [] ''https://video.google.com/timedtext?lang=en&v=dQw4w9WgXcQ'' = Inl ''connection refused''
   \<and> fst (get_fallback_captions unreachable [] ''dQw4w9WgXcQ'') = Inl (Exn TypeError (arity_error unreachable))
   \<and> status_code (reply 404 ''Not Found'' (Inl ''no document'')) \<noteq> 200
   \<and> fst (get_fallback_captions captions_missing [] ''dQw4w9WgXcQ'') = Inl (Exn TypeError (arity_error captions_missing))
   \<and> fst (get_fallback_captions captions_broken [] ''dQw4w9WgXcQ'') = Inl (Exn TypeError (arity_error captions_broken))
   \<and> fst (summary_api captions_missing [] (Some ''https://youtu.be/dQw4w9WgXcQ'')) =
       Inr (JObj [(''error'', JStr ''Internal error occurred. Ensure video has English captions.'')], 500)"
proof -
  have "fst (summary_api captions_missing [] (Some ''https://youtu.be/dQw4w9WgXcQ'')) =
       Inr (JObj [(''error'', JStr ''Internal error occurred. Ensure video has English captions.'')], 500)"
    by code_simp
  then show ?thesis
    using scrape_failure_raises_type_error[of unreachable "[]" "''dQw4w9WgXcQ''" "''connection refused''"]
          scrape_failure_raises_type_error[of captions_missing "[]" "''dQw4w9WgXcQ''" _
            "reply 404 ''Not Found'' (Inl ''no document'')"]
          scrape_failure_raises_type_error[of captions_broken "[]" "''dQw4w9WgXcQ''" "''no element found''"
            "reply 200 ''<transcript>'' (Inl ''no document'')"]
    by (simp add: unreachable_def captions_missing_def captions_broken_def reply_def)
qed

section \<open>The Translator\<close>

text \<open>
  Claim C7, as amended. The Translator makes exactly one request to the generation
  service and cannot raise. When the request raises, when the status is one of 400 to
  599, when the body cannot be decoded, or when the walk to the first part of the
  first candidate raises (an empty list, a value of the wrong type), it returns the
  placeholder \<^verbatim>\<open>Translation failed: \<close> followed by the text of the exception.
  Otherwise it returns the text of the first part of the first candidate; a key that
  is absent on the way is replaced by a default, so that a document without
  candidates gives back the text that was to be translated.
\<close>

theorem translator_degrades:
  fixes W h foreign_text lang
  defines "p \<equiv> payload (JStr foreign_text) (translate_prompt lang)"
  shows "snd (translate_text W h foreign_text lang) = h @ [HttpPost GEMINI_URL p]
    \<and> (requests_post W h GEMINI_URL p = Inl m \<longrightarrow>
         fst (translate_text W h foreign_text lang) = JStr (''Translation failed: '' @ m))
    \<and> (requests_post W h GEMINI_URL p = Inr resp \<and> 400 \<le> status_code resp \<and> status_code resp < 600 \<longrightarrow>
         fst (translate_text W h foreign_text lang) = JStr (''Translation failed: '' @ status_error resp))
    \<and> (requests_post W h GEMINI_URL p = Inr resp \<and> \<not> (400 \<le> status_code resp \<and> status_code resp < 600) \<longrightarrow>
         (parsed_json resp = Inl m \<longrightarrow>
            fst (translate_text W h foreign_text lang) = JStr (''Translation failed: '' @ m))
       \<and> (parsed_json resp = Inr result \<and> candidate_text result (JStr foreign_text) = Inl m \<longrightarrow>
            fst (translate_text W h foreign_text lang) = JStr (''Translation failed: '' @ m))
       \<and> (parsed_json resp = Inr (JObj kvs)
            \<and> map_of kvs ''candidates'' = Some (JArr (JObj c # cs))
            \<and> map_of c ''content'' = Some (JObj ct)
            \<and> map_of ct ''parts'' = Some (JArr (JObj pt # ps))
            \<and> map_of pt ''text'' = Some v \<longrightarrow>
            fst (translate_text W h foreign_text lang) = v)
       \<and> (parsed_json resp = Inr (JObj kvs) \<and> map_of kvs ''candidates'' = None \<longrightarrow>
            fst (translate_text W h foreign_text lang) = JStr foreign_text))"
  unfolding p_def
  by (auto simp: translate_text_def Let_def translation_failed_def raises_for_status_def
        candidate_text_found candidate_text_default split: sum.splits)

theorem translator_degrades_witness:
  "translate_text french_world [] ''Bonjour le monde'' ''French'' =
     (JStr ''Hello world'', [HttpPost GEMINI_URL (payload (JStr ''Bonjour le monde'') (translate_prompt ''French''))])
   \<and> translate_text unreachable [] ''Bonjour le monde'' ''French'' =
     (JStr ''Translation failed: connection refused'',
      [HttpPost GEMINI_URL (payload (JStr ''Bonjour le monde'') (translate_prompt ''French''))])
   \<and> fst (translate_text always_busy [] ''Bonjour le monde'' ''French'') = JStr ''Translation failed: HTTP error''
   \<and> fst (translate_text bare_reply [] ''Bonjour le monde'' ''French'') = JStr ''Bonjour le monde''"
  using translator_degrades[of french_world "[]" "''Bonjour le monde''" "''French''"]
        translator_degrades[of unreachable "[]" "''Bonjour le monde''" "''French''" "''connection refused''"]
        translator_degrades[of always_busy "[]" "''Bonjour le monde''" "''French''" _ "reply 503 [] (Inl ''no document'')"]
        translator_degrades[of bare_reply "[]" "''Bonjour le monde''" "''French''" _ "reply 200 ''{}'' (Inr (JObj []))" _ "[]"]
  by (simp add: french_world_def unreachable_def always_busy_def bare_reply_def reply_def translated_def
        translate_text_def raises_for_status_def candidate_text_def and_then_def translation_failed_def Let_def)

text \<open>
  The claim as it stands has a placeholder for every failure. A reply that decodes to
  an empty object yields the untranslated input, and a reply with status 304 is not an
  error for \<^verbatim>\<open>raise_for_status()\<close>: its document is read like that of a 200.
\<close>

theorem translator_counterexample:
  "requests_post bare_reply [] GEMINI_URL (payload (JStr ''Bonjour le monde'') (translate_prompt ''French''))
     = Inr (reply 200 ''{}'' (Inr (JObj [])))
   \<and> fst (translate_text bare_reply [] ''Bonjour le monde'' ''French'') = JStr ''Bonjour le monde''
   \<and> requests_post not_modified [] GEMINI_URL (payload (JStr ''Bonjour le monde'') (translate_prompt ''French''))
     = Inr (reply 304 [] (Inr translated))
   \<and> fst (translate_text not_modified [] ''Bonjour le monde'' ''French'') = JStr ''Hello world''"
  by (simp add: bare_reply_def not_modified_def unreachable_def reply_def translated_def
        translate_text_def raises_for_status_def candidate_text_def and_then_def Let_def)

section \<open>The extracted video id\<close>

lemma unquote_empty_iff: "unquote s = [] \<longleftrightarrow> s = []"
  by (induction s rule: unquote.induct) (auto split: option.splits)

lemma parse_field_values: "(n, v) \<in> set (parse_field nv) \<Longrightarrow> v \<noteq> []"
  by (auto simp: parse_field_def Let_def plus_to_space_def unquote_empty_iff split: if_splits)

lemma parse_qs_values: "v \<in> set (parse_qs q k) \<Longrightarrow> v \<noteq> []"
  by (auto simp: parse_qs_def parse_qsl_def dest: parse_field_values)

lemma match_here_Some:
  assumes "match_here s = Some g"
  shows "length g = 11 \<and> list_all id_char g \<and> (\<exists>b. s = ''youtu.be/'' @ g @ b)"
proof -
  from assms have g: "g = take 11 (drop 9 s)" "take 9 s = ''youtu.be/''" "length g = 11" "list_all id_char g"
    by (auto simp: match_here_def Let_def split: if_splits)
  have "s = take 9 s @ drop 9 s"
    by simp
  also have "drop 9 s = take 11 (drop 9 s) @ drop 11 (drop 9 s)"
    by (simp only: append_take_drop_id)
  finally have "s = take 9 s @ take 11 (drop 9 s) @ drop 11 (drop 9 s)" .
  then have "s = ''youtu.be/'' @ g @ drop 11 (drop 9 s)"
    using g(1,2) by simp
  then show ?thesis using g(3,4) by blast
qed

lemma match_here_prefix:
  assumes "length g = 11" and "list_all id_char g"
  shows "match_here (''youtu.be/'' @ g @ b) = Some g"
proof -
  have "drop 9 (''youtu.be/'' @ g @ b) = g @ b" by simp
  moreover have "take 9 (''youtu.be/'' @ g @ b) = ''youtu.be/''" by simp
  ultimately show ?thesis
    using assms unfolding match_here_def Let_def by (simp del: take_Cons_numeral drop_Cons_numeral)
qed

lemma re_search_Some:
  "re_search s = Some g \<Longrightarrow>
   length g = 11 \<and> list_all id_char g \<and> (\<exists>a b. s = a @ ''youtu.be/'' @ g @ b)"
proof (induction s)
  case Nil
  then show ?case by simp
next
  case (Cons c cs)
  show ?case
  proof (cases "match_here (c # cs)")
    case (Some g')
    then have "g' = g" using Cons.prems by simp
    then obtain b where "c # cs = ''youtu.be/'' @ g @ b" "length g = 11" "list_all id_char g"
      using match_here_Some[OF Some] by blast
    then have "c # cs = [] @ ''youtu.be/'' @ g @ b" by simp
    then show ?thesis using \<open>length g = 11\<close> \<open>list_all id_char g\<close> by blast
  next
    case None
    then have "re_search cs = Some g" using Cons.prems by simp
    from Cons.IH[OF this] obtain a b where "cs = a @ ''youtu.be/'' @ g @ b"
      and *: "length g = 11" "list_all id_char g" by blast
    then have "c # cs = (c # a) @ ''youtu.be/'' @ g @ b" by simp
    then show ?thesis using * by blast
  qed
qed

lemma re_search_None:
  "re_search s = None \<Longrightarrow> s = a @ ''youtu.be/'' @ g @ b \<Longrightarrow> length g = 11 \<Longrightarrow> \<not> list_all id_char g"
proof (induction s arbitrary: a)
  case Nil
  then show ?case by simp
next
  case (Cons c cs)
  have m: "match_here (c # cs) = None" and r: "re_search cs = None"
    using Cons.prems(1) by (auto split: option.splits)
  show ?case
  proof (cases a)
    case Nil
    then have "c # cs = ''youtu.be/'' @ g @ b" using Cons.prems(2) by simp
    then show ?thesis
      using m match_here_prefix[of g b] Cons.prems(3) by auto
  next
    case (Cons x a')
    then have "cs = a' @ ''youtu.be/'' @ g @ b" using Cons.prems(2) by simp
    from Cons.IH[OF r this Cons.prems(3)] show ?thesis .
  qed
qed

text \<open>
  Claim C8, as amended. When extraction returns an id, the id is either the first value
  of the \<open>v\<close> parameter of the query, a non-empty string on which no other check
  is made, or, when the query has no \<open>v\<close> value, eleven characters out of letters,
  digits, \<open>_\<close> and \<open>-\<close> that follow \<open>youtu.be/\<close> in the URL. Extraction returns
  no id exactly when the URL is parsed, its query has no \<open>v\<close> value and nowhere in
  the URL is \<open>youtu.be/\<close> followed by eleven such characters.
\<close>

theorem extracted_id_shape:
  "(get_video_id W url = Inr (Some vid) \<longrightarrow>
      (\<exists>q. urlparse_query W url = Inr q
         \<and> ((\<exists>vs. parse_qs q ''v'' = vid # vs) \<and> vid \<noteq> []
            \<or> parse_qs q ''v'' = [] \<and> length vid = 11 \<and> list_all id_char vid
               \<and> (\<exists>a b. url = a @ ''youtu.be/'' @ vid @ b))))
   \<and> (get_video_id W url = Inr None \<longleftrightarrow>
      (\<exists>q. urlparse_query W url = Inr q \<and> parse_qs q ''v'' = []
         \<and> (\<forall>a g b. url = a @ ''youtu.be/'' @ g @ b \<and> length g = 11 \<longrightarrow> \<not> list_all id_char g)))"
proof (intro conjI impI iffI)
  assume a: "get_video_id W url = Inr (Some vid)"
  then obtain q where q: "urlparse_query W url = Inr q"
    by (auto simp: get_video_id_def split: sum.splits)
  show "\<exists>q. urlparse_query W url = Inr q
         \<and> ((\<exists>vs. parse_qs q ''v'' = vid # vs) \<and> vid \<noteq> []
            \<or> parse_qs q ''v'' = [] \<and> length vid = 11 \<and> list_all id_char vid
               \<and> (\<exists>a b. url = a @ ''youtu.be/'' @ vid @ b))"
  proof (cases "parse_qs q ''v''")
    case Nil
    then have "re_search url = Some vid"
      using a q by (simp add: get_video_id_def)
    from re_search_Some[OF this] show ?thesis using q Nil by blast
  next
    case (Cons v vs)
    then have "vid = v" using a q by (simp add: get_video_id_def)
    moreover have "v \<noteq> []"
      using parse_qs_values[of v q "''v''"] Cons by simp
    ultimately show ?thesis using q Cons by blast
  qed
next
  assume a: "get_video_id W url = Inr None"
  then obtain q where q: "urlparse_query W url = Inr q"
    by (auto simp: get_video_id_def split: sum.splits)
  then have "parse_qs q ''v'' = []" and "re_search url = None"
    using a by (auto simp: get_video_id_def split: list.splits)
  then show "\<exists>q. urlparse_query W url = Inr q \<and> parse_qs q ''v'' = []
         \<and> (\<forall>a g b. url = a @ ''youtu.be/'' @ g @ b \<and> length g = 11 \<longrightarrow> \<not> list_all id_char g)"
    using q re_search_None[of url] by blast
next
  assume "\<exists>q. urlparse_query W url = Inr q \<and> parse_qs q ''v'' = []
         \<and> (\<forall>a g b. url = a @ ''youtu.be/'' @ g @ b \<and> length g = 11 \<longrightarrow> \<not> list_all id_char g)"
  then obtain q where q: "urlparse_query W url = Inr q" "parse_qs q ''v'' = []"
    and n: "\<forall>a g b. url = a @ ''youtu.be/'' @ g @ b \<and> length g = 11 \<longrightarrow> \<not> list_all id_char g"
    by blast
  have "re_search url = None"
  proof (cases "re_search url")
    case None then show ?thesis .
  next
    case (Some g)
    from re_search_Some[OF this] n show ?thesis by blast
  qed
  then show "get_video_id W url = Inr None"
    using q by (simp add: get_video_id_def)
qed

theorem extracted_id_shape_witness:
  "get_video_id unreachable ''https://youtu.be/dQw4w9WgXcQ?t=3'' = Inr (Some ''dQw4w9WgXcQ'')
   \<and> length ''dQw4w9WgXcQ'' = 11
   \<and> get_video_id unreachable ''https://www.youtube.com/watch?v=dQw4w9WgXcQ&t=3'' = Inr (Some ''dQw4w9WgXcQ'')
   \<and> get_video_id unreachable ''https://example.com/watch'' = Inr None"
proof -
  have a: "get_video_id unreachable ''https://youtu.be/dQw4w9WgXcQ?t=3'' = Inr (Some ''dQw4w9WgXcQ'')"
    by code_simp
  have b: "get_video_id unreachable ''https://www.youtube.com/watch?v=dQw4w9WgXcQ&t=3'' = Inr (Some ''dQw4w9WgXcQ'')"
    by code_simp
  have c: "get_video_id unreachable ''https://example.com/watch'' = Inr None"
    by code_simp
  show ?thesis
    using a b c
      extracted_id_shape[of unreachable "''https://youtu.be/dQw4w9WgXcQ?t=3''" "''dQw4w9WgXcQ''"]
      extracted_id_shape[of unreachable "''https://example.com/watch''"]
    by simp
qed

text \<open>
  The claim as it stands gives every extracted id eleven URL-safe characters. The value
  of a \<open>v\<close> parameter is returned as it is, whatever its length and its characters.
\<close>

theorem extracted_id_counterexample:
  "get_video_id unreachable ''https://www.youtube.com/watch?v=abc'' = Inr (Some ''abc'')
   \<and> length ''abc'' \<noteq> 11
   \<and> get_video_id unreachable ''https://www.youtube.com/watch?v=a+b%21'' = Inr (Some ''a b!'')
   \<and> \<not> list_all id_char ''a b!''"
proof -
  have "get_video_id unreachable ''https://www.youtube.com/watch?v=abc'' = Inr (Some ''abc'')"
    by code_simp
  moreover have "get_video_id unreachable ''https://www.youtube.com/watch?v=a+b%21'' = Inr (Some ''a b!'')"
    by code_simp
  moreover have "\<not> list_all id_char ''a b!''"
    by code_simp
  ultimately show ?thesis by simp
qed

text \<open>
  Claim C9 gives the Extractor three outcomes for every URL string: the first \<open>v\<close>
  value, the id of a short link, or an absent result. There is a fourth. When the
  network location of the URL has one square bracket without the other, the URL library
  raises \<^verbatim>\<open>ValueError\<close>; \<^verbatim>\<open>get_video_id\<close> has no handler, and the endpoint calls it
  outside its \<^verbatim>\<open>try\<close>, so the exception leaves the view instead of the answer
  400 that an invalid URL is meant to get.
\<close>

theorem extractor_raises_on_unmatched_bracket:
  "get_video_id W ''http://['' = Inl (Exn ValueError ''Invalid IPv6 URL'')
   \<and> summary_api W h (Some ''http://['') = (Inl (Exn ValueError ''Invalid IPv6 URL''), h)"
proof -
  have "get_video_id W ''http://['' = Inl (Exn ValueError ''Invalid IPv6 URL'')"
    by (simp add: get_video_id_def urlparse_query_def strip_scheme_def c0_control_or_space_def
          unsafe_url_byte_def ascii_alpha_def scheme_char_def ascii_digit_def netloc_delim_def Let_def)
  then show ?thesis
    by (simp add: summary_api_def)
qed

section \<open>The status codes of the endpoint\<close>

lemma attempts_raise_class:
  "fst (attempts W p retries attempt delay h) = Raised e \<Longrightarrow> cls e = PyException"
proof (induction "retries - attempt" arbitrary: attempt delay h)
  case 0
  then show ?case by (subst (asm) attempts.simps) simp
next
  case (Suc n)
  show ?case
  proof (cases "Suc attempt < retries \<and> retryable W h p")
    case True
    have "n = retries - Suc attempt" using Suc.hyps(2) by simp
    from Suc.hyps(1)[OF this] Suc.prems True show ?thesis
      by (simp add: attempts_retry)
  next
    case False
    then show ?thesis
      using Suc.prems Suc.hyps(2)
      by (subst (asm) attempts.simps)
         (auto simp: retryable_def raises_for_status_def Let_def split: sum.splits if_splits)
  qed
qed

lemma summary_raise_class:
  "get_summary_gemini W h t = (Inl e, h') \<Longrightarrow> cls e = PyException"
  using attempts_raise_class[of W "payload t summary_prompt" 5 0 2 h e]
  by (cases "attempts W (payload t summary_prompt) 5 0 2 h")
     (auto simp: get_summary_gemini_def split: loop_exit.splits)

text \<open>
  Claim C1, as amended. A request without a \<open>url\<close> or with an empty one is answered
  400 \<^verbatim>\<open>No URL provided.\<close>; a URL for which extraction returns no id or an empty
  one, 400 \<^verbatim>\<open>Invalid YouTube URL format.\<close>; a transcript that is empty (the empty
  string, or another value that is false in Python), 404 \<^verbatim>\<open>Transcript is empty.\<close>; a
  failure that the Fetcher raises as \<open>NoTranscriptFound\<close>, \<open>TranscriptsDisabled\<close> or
  \<open>CouldNotRetrieveTranscript\<close>, 404 with the text of the exception; any other
  exception of the Fetcher and every exception of the Summarizer, 500 with the fixed
  body, its text being printed and not returned; success, 200 with the summary.
\<close>

theorem endpoint_status_mapping:
  "(arg = None \<or> arg = Some [] \<longrightarrow>
      summary_api W h arg = (Inr (JObj [(''error'', JStr ''No URL provided.'')], 400), h))
   \<and> (arg = Some url \<and> url \<noteq> [] \<and> (get_video_id W url = Inr None \<or> get_video_id W url = Inr (Some [])) \<longrightarrow>
      summary_api W h arg = (Inr (JObj [(''error'', JStr ''Invalid YouTube URL format.'')], 400), h))
   \<and> (arg = Some url \<and> url \<noteq> [] \<and> get_video_id W url = Inr (Some vid) \<and> vid \<noteq> [] \<longrightarrow>
        (get_transcript W h vid = (Inr (JStr []), h1) \<longrightarrow>
           summary_api W h arg = (Inr (JObj [(''error'', JStr ''Transcript is empty.'')], 404), h1))
      \<and> (get_transcript W h vid = (Inr t, h1) \<and> \<not> truthy t \<longrightarrow>
           summary_api W h arg = (Inr (JObj [(''error'', JStr ''Transcript is empty.'')], 404), h1))
      \<and> (get_transcript W h vid = (Inl e, h1)
           \<and> cls e \<in> {NoTranscriptFound, TranscriptsDisabled, CouldNotRetrieveTranscript} \<longrightarrow>
           summary_api W h arg = (Inr (JObj [(''error'', JStr (msg e))], 404), h1))
      \<and> (get_transcript W h vid = (Inl e, h1)
           \<and> cls e \<notin> {NoTranscriptFound, TranscriptsDisabled, CouldNotRetrieveTranscript} \<longrightarrow>
           summary_api W h arg =
             (Inr (JObj [(''error'', JStr ''Internal error occurred. Ensure video has English captions.'')], 500),
              h1 @ [Print (''Internal Error: '' @ msg e)]))
      \<and> (get_transcript W h vid = (Inr t, h1) \<and> truthy t \<and> get_summary_gemini W h1 t = (Inl e, h2) \<longrightarrow>
           summary_api W h arg =
             (Inr (JObj [(''error'', JStr ''Internal error occurred. Ensure video has English captions.'')], 500),
              h2 @ [Print (''Internal Error: '' @ msg e)]))
      \<and> (get_transcript W h vid = (Inr t, h1) \<and> truthy t \<and> get_summary_gemini W h1 t = (Inr s, h2) \<longrightarrow>
           summary_api W h arg = (Inr (JObj [(''summary'', s)], 200), h2))
      \<and> (get_transcript W h vid = (Inr (JStr (c # cs)), h1)
           \<and> get_summary_gemini W h1 (JStr (c # cs)) = (Inr s, h2) \<longrightarrow>
           summary_api W h arg = (Inr (JObj [(''summary'', s)], 200), h2)))"
proof (intro conjI impI)
  assume "arg = None \<or> arg = Some []"
  then show "summary_api W h arg = (Inr (JObj [(''error'', JStr ''No URL provided.'')], 400), h)"
    by (auto simp: summary_api_def error_body_def)
next
  assume "arg = Some url \<and> url \<noteq> [] \<and> (get_video_id W url = Inr None \<or> get_video_id W url = Inr (Some []))"
  then show "summary_api W h arg = (Inr (JObj [(''error'', JStr ''Invalid YouTube URL format.'')], 400), h)"
    by (auto simp: summary_api_def error_body_def)
next
  assume a: "arg = Some url \<and> url \<noteq> [] \<and> get_video_id W url = Inr (Some vid) \<and> vid \<noteq> []"
    and b: "get_transcript W h vid = (Inr (JStr []), h1)"
  then show "summary_api W h arg = (Inr (JObj [(''error'', JStr ''Transcript is empty.'')], 404), h1)"
    by (simp add: summary_api_def error_body_def)
next
  assume a: "arg = Some url \<and> url \<noteq> [] \<and> get_video_id W url = Inr (Some vid) \<and> vid \<noteq> []"
    and b: "get_transcript W h vid = (Inr t, h1) \<and> \<not> truthy t"
  then show "summary_api W h arg = (Inr (JObj [(''error'', JStr ''Transcript is empty.'')], 404), h1)"
    by (simp add: summary_api_def error_body_def)
next
  assume a: "arg = Some url \<and> url \<noteq> [] \<and> get_video_id W url = Inr (Some vid) \<and> vid \<noteq> []"
    and b: "get_transcript W h vid = (Inl e, h1)
           \<and> cls e \<in> {NoTranscriptFound, TranscriptsDisabled, CouldNotRetrieveTranscript}"
  then show "summary_api W h arg = (Inr (JObj [(''error'', JStr (msg e))], 404), h1)"
    by (simp add: summary_api_def failure_reply_def error_body_def)
next
  assume a: "arg = Some url \<and> url \<noteq> [] \<and> get_video_id W url = Inr (Some vid) \<and> vid \<noteq> []"
    and b: "get_transcript W h vid = (Inl e, h1)
           \<and> cls e \<notin> {NoTranscriptFound, TranscriptsDisabled, CouldNotRetrieveTranscript}"
  then show "summary_api W h arg =
             (Inr (JObj [(''error'', JStr ''Internal error occurred. Ensure video has English captions.'')], 500),
              h1 @ [Print (''Internal Error: '' @ msg e)])"
    by (simp add: summary_api_def failure_reply_def error_body_def)
next
  assume a: "arg = Some url \<and> url \<noteq> [] \<and> get_video_id W url = Inr (Some vid) \<and> vid \<noteq> []"
    and b: "get_transcript W h vid = (Inr t, h1) \<and> truthy t \<and> get_summary_gemini W h1 t = (Inl e, h2)"
  then have "cls e = PyException"
    using summary_raise_class by blast
  then show "summary_api W h arg =
             (Inr (JObj [(''error'', JStr ''Internal error occurred. Ensure video has English captions.'')], 500),
              h2 @ [Print (''Internal Error: '' @ msg e)])"
    using a b by (simp add: summary_api_def failure_reply_def error_body_def)
next
  assume a: "arg = Some url \<and> url \<noteq> [] \<and> get_video_id W url = Inr (Some vid) \<and> vid \<noteq> []"
    and b: "get_transcript W h vid = (Inr t, h1) \<and> truthy t \<and> get_summary_gemini W h1 t = (Inr s, h2)"
  then show "summary_api W h arg = (Inr (JObj [(''summary'', s)], 200), h2)"
    by (simp add: summary_api_def)
next
  assume a: "arg = Some url \<and> url \<noteq> [] \<and> get_video_id W url = Inr (Some vid) \<and> vid \<noteq> []"
    and b: "get_transcript W h vid = (Inr (JStr (c # cs)), h1)
           \<and> get_summary_gemini W h1 (JStr (c # cs)) = (Inr s, h2)"
  then show "summary_api W h arg = (Inr (JObj [(''summary'', s)], 200), h2)"
    by (simp add: summary_api_def)
qed

theorem endpoint_status_mapping_witness:
  "summary_api unreachable [] None = (Inr (JObj [(''error'', JStr ''No URL provided.'')], 400), [])
   \<and> get_video_id unreachable ''https://example.com/watch'' = Inr None
   \<and> summary_api unreachable [] (Some ''https://example.com/watch'') =
       (Inr (JObj [(''error'', JStr ''Invalid YouTube URL format.'')], 400), [])
   \<and> fst (get_transcript silent_video [] ''dQw4w9WgXcQ'') = Inr (JStr [])
   \<and> fst (summary_api silent_video [] (Some ''https://youtu.be/dQw4w9WgXcQ'')) =
       Inr (JObj [(''error'', JStr ''Transcript is empty.'')], 404)
   \<and> fst (get_transcript hidden_tracks [] ''dQw4w9WgXcQ'') =
       Inl (Exn TranscriptsDisabled ''subtitles are disabled'')
   \<and> fst (summary_api hidden_tracks [] (Some ''https://youtu.be/dQw4w9WgXcQ'')) =
       Inr (JObj [(''error'', JStr ''subtitles are disabled'')], 404)
   \<and> cls (Exn CouldNotRetrieveTranscript ''video unavailable'') = CouldNotRetrieveTranscript
   \<and> fst (summary_api unavailable [] (Some ''https://youtu.be/dQw4w9WgXcQ'')) =
       Inr (JObj [(''error'', JStr (retrieve_message unavailable
          ''Transcript Error: Could not retrieve transcript for video (ID: dQw4w9WgXcQ). Reason: video unavailable''))],
            404)
   \<and> fst (get_summary_gemini speechless [GetTranscript ''dQw4w9WgXcQ'' [''en'']] (JStr ''Hello world'')) =
       Inl (Exn PyException ''Gemini API call failed: connection refused'')
   \<and> fst (summary_api speechless [] (Some ''https://youtu.be/dQw4w9WgXcQ'')) =
       Inr (JObj [(''error'', JStr ''Internal error occurred. Ensure video has English captions.'')], 500)
   \<and> fst (summary_api summarizing [] (Some ''https://youtu.be/dQw4w9WgXcQ'')) =
       Inr (JObj [(''summary'', JStr ''- a greeting'')], 200)"
proof -
  have a: "get_video_id unreachable ''https://example.com/watch'' = Inr None"
    by code_simp
  have b: "fst (get_transcript silent_video [] ''dQw4w9WgXcQ'') = Inr (JStr [])"
    by code_simp
  have c: "fst (get_transcript hidden_tracks [] ''dQw4w9WgXcQ'') =
       Inl (Exn TranscriptsDisabled ''subtitles are disabled'')"
    by code_simp
  have d: "fst (get_summary_gemini speechless [GetTranscript ''dQw4w9WgXcQ'' [''en'']] (JStr ''Hello world'')) =
       Inl (Exn PyException ''Gemini API call failed: connection refused'')"
    by code_simp
  have e: "fst (summary_api silent_video [] (Some ''https://youtu.be/dQw4w9WgXcQ'')) =
       Inr (JObj [(''error'', JStr ''Transcript is empty.'')], 404)"
    by code_simp
  have f: "fst (summary_api hidden_tracks [] (Some ''https://youtu.be/dQw4w9WgXcQ'')) =
       Inr (JObj [(''error'', JStr ''subtitles are disabled'')], 404)"
    by code_simp
  have g: "fst (summary_api speechless [] (Some ''https://youtu.be/dQw4w9WgXcQ'')) =
       Inr (JObj [(''error'', JStr ''Internal error occurred. Ensure video has English captions.'')], 500)"
    by code_simp
  have i: "fst (summary_api summarizing [] (Some ''https://youtu.be/dQw4w9WgXcQ'')) =
       Inr (JObj [(''summary'', JStr ''- a greeting'')], 200)"
    by code_simp
  have j: "fst (summary_api unavailable [] (Some ''https://youtu.be/dQw4w9WgXcQ'')) =
       Inr (JObj [(''error'', JStr (retrieve_message unavailable
          ''Transcript Error: Could not retrieve transcript for video (ID: dQw4w9WgXcQ). Reason: video unavailable''))],
            404)"
    by code_simp
  show ?thesis
    using a b c d e f g i j
      endpoint_status_mapping[of None unreachable "[]"]
      endpoint_status_mapping[of "Some ''https://example.com/watch''" unreachable "[]" "''https://example.com/watch''"]
    by simp
qed

text \<open>
  The claim as it stands sends every failure to retrieve a transcript to 404. When the
  request for the auto-generated track fails with anything but ``no transcript'', the
  Fetcher raises a plain \<^verbatim>\<open>Exception\<close> (``Transcript retrieval error''), which the
  endpoint answers with 500 and the fixed body.
\<close>

theorem endpoint_status_counterexample:
  "api_get_transcript retrieval_error [GetTranscript ''dQw4w9WgXcQ'' [''en'']] ''dQw4w9WgXcQ'' [''a.en'']
     = Inl (Exn CouldNotRetrieveTranscript ''request blocked'')
   \<and> get_transcript retrieval_error [] ''dQw4w9WgXcQ'' =
       (Inl (Exn PyException ''Transcript retrieval error: request blocked''),
        [GetTranscript ''dQw4w9WgXcQ'' [''en''], GetTranscript ''dQw4w9WgXcQ'' [''a.en'']])
   \<and> summary_api retrieval_error [] (Some ''https://youtu.be/dQw4w9WgXcQ'') =
       (Inr (JObj [(''error'', JStr ''Internal error occurred. Ensure video has English captions.'')], 500),
        [GetTranscript ''dQw4w9WgXcQ'' [''en''], GetTranscript ''dQw4w9WgXcQ'' [''a.en''],
         Print ''Internal Error: Transcript retrieval error: request blocked''])"
proof -
  have "api_get_transcript retrieval_error [GetTranscript ''dQw4w9WgXcQ'' [''en'']] ''dQw4w9WgXcQ'' [''a.en'']
     = Inl (Exn CouldNotRetrieveTranscript ''request blocked'')"
    by code_simp
  moreover have "get_transcript retrieval_error [] ''dQw4w9WgXcQ'' =
       (Inl (Exn PyException ''Transcript retrieval error: request blocked''),
        [GetTranscript ''dQw4w9WgXcQ'' [''en''], GetTranscript ''dQw4w9WgXcQ'' [''a.en'']])"
    by code_simp
  moreover have "summary_api retrieval_error [] (Some ''https://youtu.be/dQw4w9WgXcQ'') =
       (Inr (JObj [(''error'', JStr ''Internal error occurred. Ensure video has English captions.'')], 500),
        [GetTranscript ''dQw4w9WgXcQ'' [''en''], GetTranscript ''dQw4w9WgXcQ'' [''a.en''],
         Print ''Internal Error: Transcript retrieval error: request blocked''])"
    by code_simp
  ultimately show ?thesis by simp
qed

end
